theory Spec2Isabelle
  imports Complex_Main "HOL-Library.AList" "HOL-Library.Log_Nat"
begin

section \<open>CostGuardian: the idle-resource monitor and the savings calculator\<close>

text \<open>
  A shallow embedding of \<^verbatim>\<open>lambda_handler.py\<close>, \<^verbatim>\<open>pricing.py\<close> and
  \<^verbatim>\<open>cost_savings_calculator.py\<close>. Python integers are modelled as \<open>int\<close>, strings as
  \<open>string\<close>. In \<^verbatim>\<open>lambda_handler.py\<close> the floats are clock readings, their differences
  in days, and price estimates, which are compared with thresholds and stored; they are
  modelled as reals. In \<^verbatim>\<open>pricing.py\<close> and
  \<^verbatim>\<open>cost_savings_calculator.py\<close>, where amounts are computed and printed with two decimals,
  a float is the real number that a double holds, and every literal and every arithmetic
  operation rounds to the nearest double (\<open>py_float\<close> below). A call of an external service
  (DynamoDB, S3, EC2, CloudWatch, SNS) is modelled by its outcome, which is an input of the
  model.
\<close>

subsection \<open>History records\<close>

text \<open>
  A DynamoDB item of the history table, restricted to the attributes that the decision
  logic and the savings calculator read, or that the properties below talk about. An
  attribute that is absent from the item is \<open>None\<close>, so that \<^verbatim>\<open>item.get(k, d)\<close> is a
  case distinction. \<open>ResourceId\<close> (string) and \<open>Timestamp\<close> (number, whole seconds) are
  the key attributes of the table.
\<close>

record item =
  ResourceId :: "string option"
  Timestamp :: "int option"
  ResourceType :: "string option"
  Status :: "string option"
  InstanceType :: "string option"
  DBInstanceClass :: "string option"
  VolumeType :: "string option"
  IdleCount :: "int option"
  UnattachedCount :: "int option"
  EmptyCount :: "int option"
  ConfigBackupPath :: "string option"
  EstimatedMonthlySavings :: "real option"

definition empty_item :: item where
  "empty_item = \<lparr>ResourceId = None, Timestamp = None, ResourceType = None, Status = None,
     InstanceType = None, DBInstanceClass = None, VolumeType = None, IdleCount = None,
     UnattachedCount = None, EmptyCount = None, ConfigBackupPath = None,
     EstimatedMonthlySavings = None\<rparr>"

text \<open>\<^verbatim>\<open>d.get(k, default)\<close> on an optional attribute.\<close>

definition get_or :: "'a option \<Rightarrow> 'a \<Rightarrow> 'a" where
  "get_or v d = (case v of None \<Rightarrow> d | Some x \<Rightarrow> x)"

subsection \<open>Module configuration of the monitor\<close>

text \<open>
  The module-level constants that \<^verbatim>\<open>determine_action\<close> reads. They are gathered in a
  record so that the decision function can be studied for every setting;
  \<open>module_config\<close> holds the values written in the source.
\<close>

record config =
  GRACE_PERIOD_DAYS :: int
  SKIP_QUARANTINE :: bool
  IDLE_CHECKS_BEFORE_ACTION :: int
  CPU_IDLE_THRESHOLD :: real

definition module_config :: config where
  "module_config = \<lparr>GRACE_PERIOD_DAYS = 0, SKIP_QUARANTINE = True,
     IDLE_CHECKS_BEFORE_ACTION = 1, CPU_IDLE_THRESHOLD = 5\<rparr>"

subsection \<open>\<^verbatim>\<open>get_resource_history\<close>\<close>

text \<open>
  The function wraps one \<^verbatim>\<open>table.query\<close> call in \<^verbatim>\<open>try/except Exception\<close>. The
  outcome of the query is the argument: \<open>None\<close> when the call raised, otherwise the
  response, whose \<^verbatim>\<open>Items\<close> entry may be missing.
\<close>

definition get_resource_history :: "item list option option \<Rightarrow> item list" where
  "get_resource_history query_outcome =
     (case query_outcome of
        None \<Rightarrow> []
      | Some response \<Rightarrow> get_or response [])"

subsection \<open>\<^verbatim>\<open>determine_action\<close>\<close>

text \<open>
  The loop over \<^verbatim>\<open>reversed(history)\<close>. It carries \<open>idle_count\<close>; the result is the
  pair of \<open>idle_count\<close> and \<open>quarantine_date\<close> when the loop ends. The flag
  \<^verbatim>\<open>last_active_found\<close> of the source is assigned and never read, it is left out.
  \<^verbatim>\<open>if quarantine_date_raw:\<close> is Python truthiness: a missing timestamp and the number
  zero both fail the test.
\<close>

fun scan_history :: "item list \<Rightarrow> int \<Rightarrow> int \<times> real option" where
  "scan_history [] idle_count = (idle_count, None)"
| "scan_history (entry # older) idle_count =
     (let status = get_or (Status entry) ''UNKNOWN'' in
      if status = ''ACTIVE'' then (idle_count, None)
      else if status \<in> set [''IDLE'', ''IDLE_WARNING''] then scan_history older (idle_count + 1)
      else if status = ''QUARANTINE'' then
        (idle_count + 1,
         (case Timestamp entry of
            None \<Rightarrow> None
          | Some quarantine_date_raw \<Rightarrow>
              if quarantine_date_raw \<noteq> 0 then Some (real_of_int quarantine_date_raw) else None))
      else scan_history older idle_count)"

text \<open>\<^verbatim>\<open>if quarantine_date:\<close> on the float-or-None variable.\<close>

definition truthy_date :: "real option \<Rightarrow> bool" where
  "truthy_date d = (case d of None \<Rightarrow> False | Some q \<Rightarrow> q \<noteq> 0)"

text \<open>
  The decision. \<open>now\<close> is the value of \<^verbatim>\<open>datetime.now().timestamp()\<close> read inside the
  function. The result is the triple \<^verbatim>\<open>(action, idle_count, quarantine_date)\<close>.
\<close>

definition determine_action_with ::
  "config \<Rightarrow> real \<Rightarrow> item list \<Rightarrow> real \<Rightarrow> string \<times> int \<times> real option" where
  "determine_action_with cfg now history current_cpu =
     (if current_cpu \<ge> CPU_IDLE_THRESHOLD cfg then (''ACTIVE'', 0, None)
      else
        let (idle_count, quarantine_date) = scan_history (rev history) 0 in
        if truthy_date quarantine_date then
          (let days_since_quarantine = (now - the quarantine_date) / 86400 in
           if days_since_quarantine \<ge> real_of_int (GRACE_PERIOD_DAYS cfg)
           then (''DELETE'', idle_count, quarantine_date)
           else (''QUARANTINE'', idle_count, quarantine_date))
        else if idle_count \<ge> IDLE_CHECKS_BEFORE_ACTION cfg then
          (if SKIP_QUARANTINE cfg then (''DELETE'', idle_count, None)
           else (''QUARANTINE'', idle_count, None))
        else if idle_count \<ge> 1 then (''WARN'', idle_count, None)
        else (''WARN'', 0, None))"

text \<open>The function of the source: the decision under the constants of the module.\<close>

definition determine_action :: "real \<Rightarrow> item list \<Rightarrow> real \<Rightarrow> string \<times> int \<times> real option" where
  "determine_action now history current_cpu =
     determine_action_with module_config now history current_cpu"

subsection \<open>\<^verbatim>\<open>get_instance_cost\<close>\<close>

text \<open>
  The monthly price that the monitor stores as \<^verbatim>\<open>EstimatedMonthlySavings\<close> when it
  terminates an EC2 instance. \<open>INSTANCE_PRICING\<close> is the local dictionary \<^verbatim>\<open>pricing\<close>;
  \<open>str_contains sub s\<close> is Python's \<^verbatim>\<open>sub in s\<close> on strings; \<^verbatim>\<open>if estimated_cost:\<close>
  is truthiness of a float or \<^verbatim>\<open>None\<close>. The parameter \<^verbatim>\<open>region\<close> of the source is never
  read. The argument is a string: the function is called on the \<^verbatim>\<open>InstanceType\<close> of an
  instance that EC2 described.
\<close>

definition INSTANCE_PRICING :: "(string \<times> real) list" where
  "INSTANCE_PRICING =
     [(''t2.nano'', 4.25), (''t2.micro'', 8.50), (''t2.small'', 17.00), (''t2.medium'', 33.87),
      (''t2.large'', 67.74), (''t2.xlarge'', 135.48), (''t2.2xlarge'', 270.96),
      (''t3.nano'', 3.80), (''t3.micro'', 7.59), (''t3.small'', 15.18), (''t3.medium'', 30.37),
      (''t3.large'', 60.74), (''t3.xlarge'', 121.47), (''t3.2xlarge'', 242.94),
      (''m5.large'', 69.35), (''m5.xlarge'', 138.70), (''m5.2xlarge'', 277.40),
      (''m5.4xlarge'', 554.80),
      (''c5.large'', 61.32), (''c5.xlarge'', 122.63), (''c5.2xlarge'', 245.26),
      (''r5.large'', 90.40), (''r5.xlarge'', 180.79), (''r5.2xlarge'', 361.58)]"

fun starts_with :: "string \<Rightarrow> string \<Rightarrow> bool" where
  "starts_with [] s = True"
| "starts_with (c # cs) [] = False"
| "starts_with (c # cs) (d # ds) = (c = d \<and> starts_with cs ds)"

fun str_contains :: "string \<Rightarrow> string \<Rightarrow> bool" where
  "str_contains sub [] = (sub = [])"
| "str_contains sub (c # cs) = (starts_with sub (c # cs) \<or> str_contains sub cs)"

definition truthy_cost :: "real option \<Rightarrow> bool" where
  "truthy_cost c = (case c of None \<Rightarrow> False | Some x \<Rightarrow> x \<noteq> 0)"

definition get_instance_cost :: "string \<Rightarrow> real" where
  "get_instance_cost instance_type =
     (let estimated_cost = map_of INSTANCE_PRICING instance_type in
      if truthy_cost estimated_cost then the estimated_cost
      else if str_contains ''nano'' instance_type then 5
      else if str_contains ''micro'' instance_type then 10
      else if str_contains ''small'' instance_type then 20
      else if str_contains ''medium'' instance_type then 35
      else if str_contains ''large'' instance_type then 70
      else if str_contains ''xlarge'' instance_type \<and> \<not> str_contains ''2x'' instance_type then 140
      else 200)"

subsection \<open>The monitoring cycle\<close>

text \<open>
  An EC2 instance as \<^verbatim>\<open>describe_instances\<close> returns it, with the entries that the cycle
  reads: \<^verbatim>\<open>InstanceId\<close>, \<^verbatim>\<open>State.Name\<close>, \<^verbatim>\<open>Tags\<close> and \<^verbatim>\<open>InstanceType\<close>.
\<close>

record ec2_instance =
  InstanceId :: string
  State :: string
  Tags :: "(string \<times> string) list"
  InstanceType' :: string

text \<open>
  The outcomes of the service calls that the cycle makes for one instance, in the order
  of the source: the history query (\<open>None\<close> when it raises); the value returned by
  \<^verbatim>\<open>get_cpu_utilization\<close>; the clock read by \<^verbatim>\<open>determine_action\<close>; the results of
  \<^verbatim>\<open>backup_instance_config\<close> and \<^verbatim>\<open>stop_instance\<close> (these helpers catch their own
  exceptions); the \<^verbatim>\<open>KeyCount\<close> of \<^verbatim>\<open>list_objects_v2\<close> (0 when the response has none,
  \<open>None\<close> when the call raises); the result of \<^verbatim>\<open>terminate_instance\<close>; whether
  \<^verbatim>\<open>table.put_item\<close> raises; and the whole second written as \<^verbatim>\<open>Timestamp\<close>.
\<close>

record ec2_outcomes =
  query_outcome :: "item list option option"
  get_cpu_utilization :: real
  clock :: real
  backup_instance_config :: bool
  stop_instance :: "string option"
  list_objects_v2 :: "int option"
  terminate_instance :: bool
  put_item_raises :: bool
  put_timestamp :: int

text \<open>
  The state of a cycle: the counters \<^verbatim>\<open>stats\<close>, \<^verbatim>\<open>nat_stats\<close> and so on, one dictionary
  per resource type, and the list of the calls made so far that change something outside,
  oldest first: an item written to the table, or a call of one of the helper functions of
  the module that back up, stop, delete or notify, recorded with the name of the helper
  and its identifying arguments.
\<close>

datatype call =
    PutItem item
  | Call string "string list"

datatype exn = ClientError | ConfigurationError

record ec2_stats =
  total_instances :: int
  active_instances :: int
  idle_instances :: int
  backed_up :: int
  errors :: int

record nat_stats =
  nat_total :: int
  nat_active :: int
  nat_idle :: int
  nat_deleted :: int
  nat_errors :: int

record eip_stats =
  eip_total :: int
  eip_attached :: int
  eip_unattached :: int
  eip_released :: int
  eip_errors :: int

record rds_stats =
  rds_total :: int
  rds_active :: int
  rds_idle :: int
  rds_stopped :: int
  rds_deleted :: int
  rds_errors :: int

record s3_stats =
  s3_total :: int
  s3_empty :: int
  s3_has_data :: int
  s3_protected :: int
  s3_lifecycle_applied :: int
  s3_deleted :: int
  s3_errors :: int

record ebs_stats =
  ebs_total :: int
  ebs_in_use :: int
  ebs_available :: int
  ebs_snapshots_created :: int
  ebs_deleted :: int
  ebs_errors :: int

record lb_stats =
  lb_total :: int
  lb_active :: int
  lb_idle :: int
  lb_deleted :: int
  lb_errors :: int

record vpc_stats =
  vpc_total :: int
  vpc_empty :: int
  vpc_active :: int
  vpc_deleted :: int
  vpc_errors :: int

record monitor_state =
  stats :: ec2_stats
  nat_stats :: nat_stats
  eip_stats :: eip_stats
  rds_stats :: rds_stats
  s3_stats :: s3_stats
  ebs_stats :: ebs_stats
  lb_stats :: lb_stats
  vpc_stats :: vpc_stats
  calls :: "call list"

text \<open>
  \<^verbatim>\<open>tags.get(k)\<close> on the dictionary built from the tag list (a later tag with the same
  key wins); a call added to the list; \<^verbatim>\<open>table.put_item\<close>, which either raises or
  writes; \<^verbatim>\<open>stats['errors'] += 1\<close>.
\<close>

definition tags_get :: "(string \<times> string) list \<Rightarrow> string \<Rightarrow> string option" where
  "tags_get tag_list k = map_of (rev tag_list) k"

definition record_call :: "call \<Rightarrow> monitor_state \<Rightarrow> monitor_state" where
  "record_call c s = s\<lparr>calls := calls s @ [c]\<rparr>"

definition put_item :: "bool \<Rightarrow> item \<Rightarrow> monitor_state \<Rightarrow> monitor_state \<times> exn option" where
  "put_item raises it s =
     (if raises then (s, Some ClientError) else (record_call (PutItem it) s, None))"

definition add_error :: "monitor_state \<Rightarrow> monitor_state" where
  "add_error s = s\<lparr>stats := (stats s)\<lparr>errors := errors (stats s) + 1\<rparr>\<rparr>"

text \<open>
  The items written for an instance share these attributes (attributes that nothing reads
  back, such as \<^verbatim>\<open>CpuUsage\<close> or \<^verbatim>\<open>LastChecked\<close>, are not modelled).
\<close>

definition ec2_item :: "ec2_instance \<Rightarrow> ec2_outcomes \<Rightarrow> string \<Rightarrow> item" where
  "ec2_item instance out status =
     empty_item\<lparr>ResourceId := Some (InstanceId instance),
                Timestamp := Some (put_timestamp out),
                ResourceType := Some ''EC2'',
                Status := Some status,
                InstanceType := Some (InstanceType' instance)\<rparr>"

definition config_backup_path :: "string \<Rightarrow> string \<Rightarrow> string \<Rightarrow> string" where
  "config_backup_path S3_BUCKET prefix rid =
     ''s3://'' @ S3_BUCKET @ ''/'' @ prefix @ ''/'' @ rid @ ''/''"

text \<open>
  The body of the \<^verbatim>\<open>try\<close> block for one instance (step 2 of \<^verbatim>\<open>lambda_handler\<close>). The
  result is the state reached and, when an exception leaves the block, that exception:
  what was counted and called before the exception stays. In the DELETE branch the
  verification, the termination and the write are inside an inner \<^verbatim>\<open>try\<close>, whose handler
  counts an error itself.
\<close>

definition process_instance ::
  "config \<Rightarrow> string \<Rightarrow> ec2_instance \<Rightarrow> ec2_outcomes \<Rightarrow> monitor_state
     \<Rightarrow> monitor_state \<times> exn option" where
  "process_instance cfg S3_BUCKET instance out s =
     (let instance_id = InstanceId instance;
          instance_state = State instance;
          history = get_resource_history (query_outcome out);
          cpu_usage = (if instance_state = ''running'' then get_cpu_utilization out else 0);
          (action, idle_count, quarantine_date) =
            determine_action_with cfg (clock out) history cpu_usage;
          backup_path = config_backup_path S3_BUCKET ''ec2-configs'' instance_id
      in
      if action = ''ACTIVE'' then
        put_item (put_item_raises out) (ec2_item instance out ''ACTIVE'')
          (s\<lparr>stats := (stats s)\<lparr>active_instances := active_instances (stats s) + 1\<rparr>\<rparr>)
      else if action = ''WARN'' then
        (let s1 = s\<lparr>stats := (stats s)\<lparr>idle_instances := idle_instances (stats s) + 1\<rparr>\<rparr>;
             s2 = record_call (Call ''backup_instance_config'' [instance_id]) s1;
             s3 = (if backup_instance_config out
                   then s2\<lparr>stats := (stats s2)\<lparr>backed_up := backed_up (stats s2) + 1\<rparr>\<rparr>
                   else s2);
             (s4, raised) =
               put_item (put_item_raises out)
                 ((ec2_item instance out ''IDLE_WARNING'')
                    \<lparr>ConfigBackupPath := Some backup_path, IdleCount := Some (idle_count + 1)\<rparr>)
                 s3
         in if raised \<noteq> None then (s4, raised)
            else if idle_count = 0
            then (record_call (Call ''send_idle_alert'' [instance_id]) s4, None)
            else (s4, None))
      else if action = ''QUARANTINE'' then
        (let s1 = s\<lparr>stats := (stats s)\<lparr>idle_instances := idle_instances (stats s) + 1\<rparr>\<rparr>
         in if instance_state = ''running'' then
              (let s2 = record_call (Call ''backup_instance_config'' [instance_id]) s1;
                   s3 = record_call (Call ''stop_instance'' [instance_id]) s2
               in case stop_instance out of
                    Some ami_id \<Rightarrow>
                      if ami_id \<noteq> [] then
                        (let (s4, raised) =
                               put_item (put_item_raises out)
                                 ((ec2_item instance out ''QUARANTINE'')
                                    \<lparr>ConfigBackupPath := Some backup_path,
                                     IdleCount := Some idle_count\<rparr>)
                                 s3
                         in if raised \<noteq> None then (s4, raised)
                            else (record_call (Call ''send_quarantine_alert'' [instance_id]) s4, None))
                      else (add_error s3, None)
                  | None \<Rightarrow> (add_error s3, None))
            else
              put_item (put_item_raises out)
                ((ec2_item instance out ''QUARANTINE'')\<lparr>IdleCount := Some idle_count\<rparr>) s1)
      else if action = ''DELETE'' then
        (case list_objects_v2 out of
           None \<Rightarrow> (add_error s, None)
         | Some key_count \<Rightarrow>
             if key_count > 0 then
               (let s1 = record_call (Call ''terminate_instance'' [instance_id]) s
                in if terminate_instance out then
                     (let s2 = record_call (Call ''delete_security_groups'' [instance_id]) s1;
                          (s3, raised) =
                            put_item (put_item_raises out)
                              ((ec2_item instance out ''DELETED'')
                                 \<lparr>ConfigBackupPath := Some backup_path,
                                  EstimatedMonthlySavings :=
                                    Some (get_instance_cost (InstanceType' instance))\<rparr>)
                              s2
                      in if raised \<noteq> None then (add_error s3, None)
                         else (record_call (Call ''send_deletion_alert'' [instance_id]) s3, None))
                   else (add_error s1, None))
             else (add_error s, None))
      else (s, None))"


text \<open>
  Step 3, NAT gateways. \<^verbatim>\<open>check_nat_gateway_usage\<close> catches its own exceptions; of its
  result only \<^verbatim>\<open>is_idle\<close> is modelled. \<^verbatim>\<open>delete_nat_gateway\<close> returns the pair
  \<^verbatim>\<open>(success, elastic_ip_released)\<close>.
\<close>

record nat_gateway =
  NatGatewayId :: string
  NatTags :: "(string \<times> string) list"

record nat_outcomes =
  check_nat_gateway_usage :: bool
  nat_query_outcome :: "item list option option"
  backup_nat_gateway_config :: bool
  delete_nat_gateway :: "bool \<times> bool"
  nat_put_item_raises :: bool
  nat_put_timestamp :: int

text \<open>
  The inline loops that count consecutive checks, over \<^verbatim>\<open>reversed(history)\<close>. The loops
  of the resource types differ only in the statuses that are counted and the statuses at
  which the loop stops, which are the first two arguments.
\<close>

fun count_checks :: "string list \<Rightarrow> string list \<Rightarrow> item list \<Rightarrow> int \<Rightarrow> int" where
  "count_checks counted stops [] n = n"
| "count_checks counted stops (entry # older) n =
     (if Status entry \<in> set (map Some counted) then count_checks counted stops older (n + 1)
      else if Status entry \<in> set (map Some stops) then n
      else count_checks counted stops older n)"

definition nat_item :: "nat_gateway \<Rightarrow> nat_outcomes \<Rightarrow> string \<Rightarrow> item" where
  "nat_item nat_gw out status =
     empty_item\<lparr>ResourceId := Some (NatGatewayId nat_gw),
                Timestamp := Some (nat_put_timestamp out),
                ResourceType := Some ''NAT_GATEWAY'',
                Status := Some status\<rparr>"

definition add_nat_error :: "monitor_state \<Rightarrow> monitor_state" where
  "add_nat_error s = s\<lparr>nat_stats := (nat_stats s)\<lparr>nat_errors := nat_errors (nat_stats s) + 1\<rparr>\<rparr>"

definition process_nat_gateway ::
  "string \<Rightarrow> nat_gateway \<Rightarrow> nat_outcomes \<Rightarrow> monitor_state \<Rightarrow> monitor_state \<times> exn option" where
  "process_nat_gateway S3_BUCKET nat_gw out s =
     (let nat_gw_id = NatGatewayId nat_gw;
          is_idle = check_nat_gateway_usage out;
          history = get_resource_history (nat_query_outcome out);
          idle_count = count_checks [''IDLE'', ''IDLE_WARNING''] [''ACTIVE''] (rev history) 0;
          backup_path = config_backup_path S3_BUCKET ''nat-gateway-configs'' nat_gw_id
      in
      if \<not> is_idle then
        put_item (nat_put_item_raises out) (nat_item nat_gw out ''ACTIVE'')
          (s\<lparr>nat_stats := (nat_stats s)\<lparr>nat_active := nat_active (nat_stats s) + 1\<rparr>\<rparr>)
      else if idle_count < 3 then
        (let s1 = s\<lparr>nat_stats := (nat_stats s)\<lparr>nat_idle := nat_idle (nat_stats s) + 1\<rparr>\<rparr>;
             s2 = record_call (Call ''backup_nat_gateway_config'' [nat_gw_id]) s1;
             (s3, raised) =
               put_item (nat_put_item_raises out)
                 ((nat_item nat_gw out ''IDLE_WARNING'')
                    \<lparr>IdleCount := Some (idle_count + 1), ConfigBackupPath := Some backup_path\<rparr>)
                 s2
         in if raised \<noteq> None then (s3, raised)
            else if idle_count = 0
            then (record_call (Call ''send_nat_gateway_alert'' [nat_gw_id, ''IDLE_WARNING'']) s3, None)
            else (s3, None))
      else
        (let s1 = s\<lparr>nat_stats := (nat_stats s)\<lparr>nat_idle := nat_idle (nat_stats s) + 1\<rparr>\<rparr>;
             s2 = record_call (Call ''backup_nat_gateway_config'' [nat_gw_id]) s1;
             s3 = record_call (Call ''delete_nat_gateway'' [nat_gw_id]) s2;
             (delete_success, eip_released) = delete_nat_gateway out
         in if delete_success then
              (let s4 = s3\<lparr>nat_stats := (nat_stats s3)\<lparr>nat_deleted := nat_deleted (nat_stats s3) + 1\<rparr>\<rparr>;
                   (s5, raised) =
                     put_item (nat_put_item_raises out)
                       ((nat_item nat_gw out ''DELETED'')
                          \<lparr>ConfigBackupPath := Some backup_path,
                           EstimatedMonthlySavings :=
                             Some (32.40 + (if eip_released then 3.60 else 0))\<rparr>)
                       s4
               in if raised \<noteq> None then (s5, raised)
                  else (record_call (Call ''send_nat_gateway_alert'' [nat_gw_id, ''DELETED'']) s5, None))
            else (add_nat_error s3, None)))"


text \<open>
  Step 4, Elastic IPs. \<open>falsy\<close> is \<^verbatim>\<open>not x\<close> on a string or \<^verbatim>\<open>None\<close>. Of the pair that
  \<^verbatim>\<open>is_elastic_ip_unattached\<close> returns, the first component is modelled. The history is
  read only for an unattached address.
\<close>

definition falsy :: "string option \<Rightarrow> bool" where
  "falsy v = (v = None \<or> v = Some [])"

record elastic_ip =
  AllocationId :: string
  EipTags :: "(string \<times> string) list"
  AssociationId :: "string option"
  EipInstanceId :: "string option"
  NetworkInterfaceId :: "string option"

record eip_outcomes =
  eip_query_outcome :: "item list option option"
  release_elastic_ip :: bool
  eip_put_item_raises :: bool
  eip_put_timestamp :: int

definition is_elastic_ip_unattached :: "elastic_ip \<Rightarrow> bool" where
  "is_elastic_ip_unattached eip =
     (falsy (AssociationId eip) \<and> falsy (EipInstanceId eip) \<and> falsy (NetworkInterfaceId eip))"

definition eip_item :: "elastic_ip \<Rightarrow> eip_outcomes \<Rightarrow> string \<Rightarrow> item" where
  "eip_item eip out status =
     empty_item\<lparr>ResourceId := Some (AllocationId eip),
                Timestamp := Some (eip_put_timestamp out),
                ResourceType := Some ''ELASTIC_IP'',
                Status := Some status\<rparr>"

definition add_eip_error :: "monitor_state \<Rightarrow> monitor_state" where
  "add_eip_error s = s\<lparr>eip_stats := (eip_stats s)\<lparr>eip_errors := eip_errors (eip_stats s) + 1\<rparr>\<rparr>"

definition process_elastic_ip ::
  "elastic_ip \<Rightarrow> eip_outcomes \<Rightarrow> monitor_state \<Rightarrow> monitor_state \<times> exn option" where
  "process_elastic_ip eip out s =
     (let allocation_id = AllocationId eip in
      if \<not> is_elastic_ip_unattached eip then
        put_item (eip_put_item_raises out) (eip_item eip out ''ATTACHED'')
          (s\<lparr>eip_stats := (eip_stats s)\<lparr>eip_attached := eip_attached (eip_stats s) + 1\<rparr>\<rparr>)
      else
        (let s1 = s\<lparr>eip_stats := (eip_stats s)\<lparr>eip_unattached := eip_unattached (eip_stats s) + 1\<rparr>\<rparr>;
             history = get_resource_history (eip_query_outcome out);
             unattached_count = count_checks [''UNATTACHED''] [''ATTACHED''] (rev history) 0
         in if unattached_count < 3 then
              (let (s2, raised) =
                     put_item (eip_put_item_raises out)
                       ((eip_item eip out ''UNATTACHED'')
                          \<lparr>UnattachedCount := Some (unattached_count + 1)\<rparr>)
                       s1
               in if raised \<noteq> None then (s2, raised)
                  else if unattached_count = 0
                  then (record_call (Call ''send_elastic_ip_alert'' [allocation_id, ''IDLE_WARNING'']) s2,
                        None)
                  else (s2, None))
            else
              (let s2 = record_call (Call ''release_elastic_ip'' [allocation_id]) s1
               in if release_elastic_ip out then
                    (let s3 = s2\<lparr>eip_stats := (eip_stats s2)
                                  \<lparr>eip_released := eip_released (eip_stats s2) + 1\<rparr>\<rparr>;
                         (s4, raised) =
                           put_item (eip_put_item_raises out)
                             ((eip_item eip out ''RELEASED'')
                                \<lparr>EstimatedMonthlySavings := Some 3.60\<rparr>)
                             s3
                     in if raised \<noteq> None then (s4, raised)
                        else (record_call (Call ''send_elastic_ip_alert'' [allocation_id, ''RELEASED'']) s4,
                              None))
                  else (add_eip_error s2, None))))"


text \<open>
  Step 5, RDS instances. \<^verbatim>\<open>get_all_rds_instances\<close> returns the list and the client; when
  the client is \<^verbatim>\<open>None\<close> the list is empty. \<^verbatim>\<open>check_rds_usage\<close> catches its own
  exceptions; of its result only \<^verbatim>\<open>is_idle\<close> is modelled. \<open>find_stopped_date\<close> is the
  inline loop that looks for the newest STOPPED record; \<^verbatim>\<open>if stopped_date:\<close> is truthiness.
\<close>

record db_instance =
  DBInstanceIdentifier :: string
  DBInstanceStatus :: string
  TagList :: "(string \<times> string) list"
  DBInstanceClass' :: string

record rds_outcomes =
  rds_query_outcome :: "item list option option"
  check_rds_usage :: bool
  rds_clock :: real
  backup_rds_config :: bool
  create_rds_snapshot :: "string option"
  stop_rds_instance :: bool
  delete_rds_instance :: bool
  rds_put_item_raises :: bool
  rds_put_timestamp :: int

definition RDS_PRICING :: "(string \<times> real) list" where
  "RDS_PRICING =
     [(''db.t3.micro'', 14.61), (''db.t3.small'', 29.22), (''db.t3.medium'', 58.43),
      (''db.t3.large'', 116.86), (''db.t3.xlarge'', 233.71), (''db.t3.2xlarge'', 467.42),
      (''db.t4g.micro'', 13.14), (''db.t4g.small'', 26.28), (''db.t4g.medium'', 52.56),
      (''db.t4g.large'', 105.12),
      (''db.m5.large'', 140.16), (''db.m5.xlarge'', 280.32), (''db.m5.2xlarge'', 560.64),
      (''db.m5.4xlarge'', 1121.28),
      (''db.r5.large'', 182.50), (''db.r5.xlarge'', 365.00), (''db.r5.2xlarge'', 730.00),
      (''db.r5.4xlarge'', 1460.00)]"

definition get_rds_cost :: "string \<Rightarrow> real" where
  "get_rds_cost db_instance_class =
     (let estimated_cost = map_of RDS_PRICING db_instance_class in
      if truthy_cost estimated_cost then the estimated_cost
      else if str_contains ''micro'' db_instance_class then 15
      else if str_contains ''small'' db_instance_class then 30
      else if str_contains ''medium'' db_instance_class then 60
      else if str_contains ''large'' db_instance_class
              \<and> \<not> str_contains ''xlarge'' db_instance_class then 150
      else if str_contains ''xlarge'' db_instance_class
              \<and> \<not> str_contains ''2x'' db_instance_class then 300
      else 500)"

fun find_stopped_date :: "item list \<Rightarrow> int option" where
  "find_stopped_date [] = None"
| "find_stopped_date (entry # older) =
     (if Status entry = Some ''STOPPED'' then Timestamp entry else find_stopped_date older)"

definition rds_item :: "db_instance \<Rightarrow> rds_outcomes \<Rightarrow> string \<Rightarrow> item" where
  "rds_item db out status =
     empty_item\<lparr>ResourceId := Some (DBInstanceIdentifier db),
                Timestamp := Some (rds_put_timestamp out),
                ResourceType := Some ''RDS'',
                Status := Some status\<rparr>"

definition add_rds_error :: "monitor_state \<Rightarrow> monitor_state" where
  "add_rds_error s = s\<lparr>rds_stats := (rds_stats s)\<lparr>rds_errors := rds_errors (rds_stats s) + 1\<rparr>\<rparr>"

definition process_db_instance ::
  "string \<Rightarrow> db_instance \<Rightarrow> rds_outcomes \<Rightarrow> monitor_state \<Rightarrow> monitor_state \<times> exn option" where
  "process_db_instance S3_BUCKET db out s =
     (let db_instance_identifier = DBInstanceIdentifier db;
          db_status = DBInstanceStatus db;
          db_class = DBInstanceClass' db;
          history = get_resource_history (rds_query_outcome out);
          is_idle = (if db_status = ''available'' then check_rds_usage out else True);
          idle_count = count_checks [''IDLE'', ''IDLE_WARNING''] [''ACTIVE''] (rev history) 0;
          backup_path = config_backup_path S3_BUCKET ''rds-configs'' db_instance_identifier
      in
      if \<not> is_idle then
        put_item (rds_put_item_raises out)
          ((rds_item db out ''ACTIVE'')\<lparr>DBInstanceClass := Some db_class\<rparr>)
          (s\<lparr>rds_stats := (rds_stats s)\<lparr>rds_active := rds_active (rds_stats s) + 1\<rparr>\<rparr>)
      else if idle_count < 3 then
        (let s1 = s\<lparr>rds_stats := (rds_stats s)\<lparr>rds_idle := rds_idle (rds_stats s) + 1\<rparr>\<rparr>;
             s2 = record_call (Call ''backup_rds_config'' [db_instance_identifier]) s1;
             (s3, raised) =
               put_item (rds_put_item_raises out)
                 ((rds_item db out ''IDLE_WARNING'')
                    \<lparr>IdleCount := Some (idle_count + 1), ConfigBackupPath := Some backup_path,
                     DBInstanceClass := Some db_class\<rparr>)
                 s2
         in if raised \<noteq> None then (s3, raised)
            else if idle_count = 0
            then (record_call (Call ''send_rds_alert'' [db_instance_identifier, ''IDLE_WARNING'']) s3,
                  None)
            else (s3, None))
      else
        (let s1 = s\<lparr>rds_stats := (rds_stats s)\<lparr>rds_idle := rds_idle (rds_stats s) + 1\<rparr>\<rparr>;
             s2 = record_call (Call ''backup_rds_config'' [db_instance_identifier]) s1;
             s3 = record_call (Call ''create_rds_snapshot'' [db_instance_identifier]) s2
         in if \<not> falsy (create_rds_snapshot out) then
              (if db_status = ''available'' then
                 (let s4 = record_call (Call ''stop_rds_instance'' [db_instance_identifier]) s3
                  in if stop_rds_instance out then
                       (let s5 = s4\<lparr>rds_stats := (rds_stats s4)
                                     \<lparr>rds_stopped := rds_stopped (rds_stats s4) + 1\<rparr>\<rparr>;
                            (s6, raised) =
                              put_item (rds_put_item_raises out)
                                ((rds_item db out ''STOPPED'')
                                   \<lparr>ConfigBackupPath := Some backup_path,
                                    DBInstanceClass := Some db_class\<rparr>)
                                s5
                        in if raised \<noteq> None then (s6, raised)
                           else (record_call
                                   (Call ''send_rds_alert'' [db_instance_identifier, ''STOPPED'']) s6,
                                 None))
                     else (add_rds_error s4, None))
               else if db_status = ''stopped'' then
                 (case find_stopped_date (rev history) of
                    None \<Rightarrow> (s3, None)
                  | Some stopped_date \<Rightarrow>
                      if stopped_date = 0 then (s3, None)
                      else
                        (let days_stopped = (rds_clock out - real_of_int stopped_date) / 86400
                         in if days_stopped \<ge> 7 then
                              (let s4 = record_call
                                          (Call ''delete_rds_instance'' [db_instance_identifier]) s3
                               in if delete_rds_instance out then
                                    (let s5 = s4\<lparr>rds_stats := (rds_stats s4)
                                                  \<lparr>rds_deleted := rds_deleted (rds_stats s4) + 1\<rparr>\<rparr>;
                                         (s6, raised) =
                                           put_item (rds_put_item_raises out)
                                             ((rds_item db out ''DELETED'')
                                                \<lparr>ConfigBackupPath := Some backup_path,
                                                 DBInstanceClass := Some db_class,
                                                 EstimatedMonthlySavings :=
                                                   Some (get_rds_cost db_class)\<rparr>)
                                             s5
                                     in if raised \<noteq> None then (s6, raised)
                                        else (record_call
                                                (Call ''send_rds_alert''
                                                   [db_instance_identifier, ''DELETED'']) s6,
                                              None))
                                  else (add_rds_error s4, None))
                            else
                              put_item (rds_put_item_raises out) (rds_item db out ''STOPPED'') s3))
               else (s3, None))
            else (add_rds_error s3, None)))"


text \<open>
  Step 6, S3 buckets. Here the tag test is inside the \<^verbatim>\<open>try\<close> block, and
  \<^verbatim>\<open>get_bucket_tags\<close> catches client errors only (\<open>None\<close>: another exception leaves
  it). \<^verbatim>\<open>get_bucket_lifecycle_configuration\<close> is called for a bucket with data; a client
  error with the code \<^verbatim>\<open>NoSuchLifecycleConfiguration\<close> applies a policy, another client
  error is ignored, another exception leaves the block. The two writes of this branch
  have an outcome each.
\<close>

record s3_bucket =
  Name :: string

datatype lifecycle_outcome =
  LifecycleFound | NoSuchLifecycleConfiguration | OtherClientError | LifecycleRaises

record s3_outcomes =
  get_bucket_tags :: "(string \<times> string) list option"
  is_bucket_empty :: bool
  s3_query_outcome :: "item list option option"
  delete_empty_bucket :: bool
  get_bucket_lifecycle_configuration :: lifecycle_outcome
  apply_lifecycle_policy :: bool
  s3_put_lifecycle_raises :: bool
  s3_put_item_raises :: bool
  s3_put_timestamp :: int

definition s3_item :: "s3_bucket \<Rightarrow> s3_outcomes \<Rightarrow> string \<Rightarrow> item" where
  "s3_item bucket out status =
     empty_item\<lparr>ResourceId := Some (Name bucket),
                Timestamp := Some (s3_put_timestamp out),
                ResourceType := Some ''S3_BUCKET'',
                Status := Some status\<rparr>"

definition add_s3_error :: "monitor_state \<Rightarrow> monitor_state" where
  "add_s3_error s = s\<lparr>s3_stats := (s3_stats s)\<lparr>s3_errors := s3_errors (s3_stats s) + 1\<rparr>\<rparr>"

definition process_s3_bucket ::
  "s3_bucket \<Rightarrow> s3_outcomes \<Rightarrow> monitor_state \<Rightarrow> monitor_state \<times> exn option" where
  "process_s3_bucket bucket out s =
     (let bucket_name = Name bucket in
      case get_bucket_tags out of
        None \<Rightarrow> (s, Some ClientError)
      | Some tag_set \<Rightarrow>
          if tags_get tag_set ''CostGuardianBucket'' = Some ''Protected''
             \<or> tags_get tag_set ''CostGuardianBucket'' = Some ''Prime''
          then (s\<lparr>s3_stats := (s3_stats s)\<lparr>s3_protected := s3_protected (s3_stats s) + 1\<rparr>\<rparr>,
                None)
          else if is_bucket_empty out then
            (let s1 = s\<lparr>s3_stats := (s3_stats s)\<lparr>s3_empty := s3_empty (s3_stats s) + 1\<rparr>\<rparr>;
                 history = get_resource_history (s3_query_outcome out);
                 empty_count = count_checks [''EMPTY''] [''HAS_DATA'', ''ACTIVE''] (rev history) 0
             in if empty_count < 3 then
                  (let (s2, raised) =
                         put_item (s3_put_item_raises out)
                           ((s3_item bucket out ''EMPTY'')\<lparr>EmptyCount := Some (empty_count + 1)\<rparr>)
                           s1
                   in if raised \<noteq> None then (s2, raised)
                      else if empty_count = 0
                      then (record_call
                              (Call ''send_s3_bucket_alert'' [bucket_name, ''EMPTY_WARNING'']) s2,
                            None)
                      else (s2, None))
                else
                  (let s2 = record_call (Call ''delete_empty_bucket'' [bucket_name]) s1
                   in if delete_empty_bucket out then
                        (let s3 = s2\<lparr>s3_stats := (s3_stats s2)
                                      \<lparr>s3_deleted := s3_deleted (s3_stats s2) + 1\<rparr>\<rparr>;
                             (s4, raised) =
                               put_item (s3_put_item_raises out) (s3_item bucket out ''DELETED'') s3
                         in if raised \<noteq> None then (s4, raised)
                            else (record_call
                                    (Call ''send_s3_bucket_alert'' [bucket_name, ''DELETED'']) s4,
                                  None))
                      else (add_s3_error s2, None)))
          else
            (let s1 = s\<lparr>s3_stats := (s3_stats s)\<lparr>s3_has_data := s3_has_data (s3_stats s) + 1\<rparr>\<rparr>;
                 (s2, raised) =
                   (case get_bucket_lifecycle_configuration out of
                      LifecycleFound \<Rightarrow> (s1, None)
                    | OtherClientError \<Rightarrow> (s1, None)
                    | LifecycleRaises \<Rightarrow> (s1, Some ClientError)
                    | NoSuchLifecycleConfiguration \<Rightarrow>
                        (let t1 = record_call (Call ''apply_lifecycle_policy'' [bucket_name]) s1
                         in if apply_lifecycle_policy out then
                              (let t2 = t1\<lparr>s3_stats := (s3_stats t1)
                                            \<lparr>s3_lifecycle_applied :=
                                               s3_lifecycle_applied (s3_stats t1) + 1\<rparr>\<rparr>;
                                   (t3, r) =
                                     put_item (s3_put_lifecycle_raises out)
                                       (s3_item bucket out ''LIFECYCLE_APPLIED'') t2
                               in if r \<noteq> None then (t3, r)
                                  else (record_call
                                          (Call ''send_s3_bucket_alert''
                                             [bucket_name, ''LIFECYCLE_APPLIED'']) t3,
                                        None))
                            else (add_s3_error t1, None)))
             in if raised \<noteq> None then (s2, raised)
                else put_item (s3_put_item_raises out) (s3_item bucket out ''HAS_DATA'') s2))"


text \<open>
  Step 7, EBS volumes, with \<^verbatim>\<open>get_ebs_volume_cost\<close>.
\<close>

record ebs_volume =
  VolumeId :: string
  VolumeState :: string
  Size :: int
  VolumeType' :: string
  Iops :: "int option"
  VolumeTags :: "(string \<times> string) list"

record ebs_outcomes =
  ebs_query_outcome :: "item list option option"
  backup_ebs_volume_config :: bool
  create_ebs_snapshot :: "string option"
  delete_ebs_volume :: bool
  ebs_put_item_raises :: bool
  ebs_put_timestamp :: int

definition EBS_PRICING :: "(string \<times> real) list" where
  "EBS_PRICING =
     [(''gp3'', 0.08), (''gp2'', 0.10), (''io1'', 0.125), (''io2'', 0.125), (''st1'', 0.045),
      (''sc1'', 0.015), (''standard'', 0.05)]"

definition get_ebs_volume_cost :: "string \<Rightarrow> int \<Rightarrow> int option \<Rightarrow> real" where
  "get_ebs_volume_cost volume_type size_gb iops =
     (let price_per_gb = get_or (map_of EBS_PRICING volume_type) 0.10;
          base_cost = real_of_int size_gb * price_per_gb
      in if volume_type \<in> set [''io1'', ''io2''] \<and> iops \<noteq> None \<and> iops \<noteq> Some 0
         then base_cost + real_of_int (the iops) * 0.065
         else base_cost)"

definition ebs_item :: "ebs_volume \<Rightarrow> ebs_outcomes \<Rightarrow> string \<Rightarrow> item" where
  "ebs_item volume out status =
     empty_item\<lparr>ResourceId := Some (VolumeId volume),
                Timestamp := Some (ebs_put_timestamp out),
                ResourceType := Some ''EBS_VOLUME'',
                Status := Some status,
                VolumeType := Some (VolumeType' volume)\<rparr>"

definition add_ebs_error :: "monitor_state \<Rightarrow> monitor_state" where
  "add_ebs_error s = s\<lparr>ebs_stats := (ebs_stats s)\<lparr>ebs_errors := ebs_errors (ebs_stats s) + 1\<rparr>\<rparr>"

definition process_ebs_volume ::
  "string \<Rightarrow> ebs_volume \<Rightarrow> ebs_outcomes \<Rightarrow> monitor_state \<Rightarrow> monitor_state \<times> exn option" where
  "process_ebs_volume S3_BUCKET volume out s =
     (let volume_id = VolumeId volume;
          volume_state = VolumeState volume;
          backup_path = config_backup_path S3_BUCKET ''ebs-volumes'' volume_id
      in
      if volume_state = ''in-use'' then
        put_item (ebs_put_item_raises out) (ebs_item volume out ''IN_USE'')
          (s\<lparr>ebs_stats := (ebs_stats s)\<lparr>ebs_in_use := ebs_in_use (ebs_stats s) + 1\<rparr>\<rparr>)
      else if volume_state = ''available'' then
        (let estimated_cost =
               get_ebs_volume_cost (VolumeType' volume) (Size volume) (Iops volume);
             s1 = s\<lparr>ebs_stats := (ebs_stats s)\<lparr>ebs_available := ebs_available (ebs_stats s) + 1\<rparr>\<rparr>;
             history = get_resource_history (ebs_query_outcome out);
             available_count = count_checks [''AVAILABLE''] [''IN_USE''] (rev history) 0
         in if available_count < 3 then
              (let s2 = record_call (Call ''backup_ebs_volume_config'' [volume_id]) s1;
                   (s3, raised) =
                     put_item (ebs_put_item_raises out)
                       ((ebs_item volume out ''AVAILABLE'')
                          \<lparr>UnattachedCount := Some (available_count + 1),
                           ConfigBackupPath := Some backup_path\<rparr>)
                       s2
               in if raised \<noteq> None then (s3, raised)
                  else if available_count = 0
                  then (record_call
                          (Call ''send_ebs_volume_alert'' [volume_id, ''UNATTACHED_WARNING'']) s3,
                        None)
                  else (s3, None))
            else
              (let s2 = record_call (Call ''backup_ebs_volume_config'' [volume_id]) s1;
                   s3 = record_call (Call ''create_ebs_snapshot'' [volume_id]) s2
               in if \<not> falsy (create_ebs_snapshot out) then
                    (let s4 = s3\<lparr>ebs_stats := (ebs_stats s3)
                                  \<lparr>ebs_snapshots_created :=
                                     ebs_snapshots_created (ebs_stats s3) + 1\<rparr>\<rparr>;
                         s5 = record_call (Call ''delete_ebs_volume'' [volume_id]) s4
                     in if delete_ebs_volume out then
                          (let s6 = s5\<lparr>ebs_stats := (ebs_stats s5)
                                        \<lparr>ebs_deleted := ebs_deleted (ebs_stats s5) + 1\<rparr>\<rparr>;
                               snapshot_cost = real_of_int (Size volume) * 0.05;
                               net_savings = estimated_cost - snapshot_cost;
                               (s7, raised) =
                                 put_item (ebs_put_item_raises out)
                                   ((ebs_item volume out ''DELETED'')
                                      \<lparr>ConfigBackupPath := Some backup_path,
                                       EstimatedMonthlySavings := Some net_savings\<rparr>)
                                   s6
                           in if raised \<noteq> None then (s7, raised)
                              else (record_call
                                      (Call ''send_ebs_volume_alert'' [volume_id, ''DELETED'']) s7,
                                    None))
                        else (add_ebs_error s5, None))
                  else (add_ebs_error s3, None)))
      else (s, None))"


text \<open>
  Steps 8 and 9, load balancers and VPCs. Their thresholds are the module constants
  \<^verbatim>\<open>LB_IDLE_CHECKS\<close> and \<^verbatim>\<open>VPC_IDLE_CHECKS\<close>; steps 3 to 7 compare with the literal 3.
  For a load balancer the tags are read by \<^verbatim>\<open>describe_tags\<close> in a \<^verbatim>\<open>try\<close> block of its
  own (\<open>None\<close>: the call raises and the tags count as empty). A default or protected VPC
  is counted as active.
\<close>

definition LB_IDLE_CHECKS :: int where
  "LB_IDLE_CHECKS = 1"

definition VPC_IDLE_CHECKS :: int where
  "VPC_IDLE_CHECKS = 1"

record load_balancer =
  LoadBalancerArn :: string
  LoadBalancerName :: string
  LoadBalancerType :: "string option"

record lb_outcomes =
  describe_tags :: "(string \<times> string) list option"
  check_load_balancer_usage :: bool
  lb_query_outcome :: "item list option option"
  backup_load_balancer_config :: bool
  delete_load_balancer :: bool
  lb_put_item_raises :: bool
  lb_put_timestamp :: int

definition lb_item :: "load_balancer \<Rightarrow> lb_outcomes \<Rightarrow> string \<Rightarrow> item" where
  "lb_item lb out status =
     empty_item\<lparr>ResourceId := Some (LoadBalancerArn lb),
                Timestamp := Some (lb_put_timestamp out),
                ResourceType := Some ''LOAD_BALANCER'',
                Status := Some status\<rparr>"

definition add_lb_error :: "monitor_state \<Rightarrow> monitor_state" where
  "add_lb_error s = s\<lparr>lb_stats := (lb_stats s)\<lparr>lb_errors := lb_errors (lb_stats s) + 1\<rparr>\<rparr>"

definition process_load_balancer ::
  "string \<Rightarrow> load_balancer \<Rightarrow> lb_outcomes \<Rightarrow> monitor_state \<Rightarrow> monitor_state \<times> exn option" where
  "process_load_balancer S3_BUCKET lb out s =
     (let lb_arn = LoadBalancerArn lb;
          lb_name = LoadBalancerName lb;
          lb_type = get_or (LoadBalancerType lb) ''application'';
          is_idle = check_load_balancer_usage out;
          history = get_resource_history (lb_query_outcome out);
          idle_count = count_checks [''IDLE'', ''IDLE_WARNING''] [''ACTIVE''] (rev history) 0;
          backup_path = config_backup_path S3_BUCKET ''load-balancers'' lb_name
      in
      if \<not> is_idle then
        put_item (lb_put_item_raises out) (lb_item lb out ''ACTIVE'')
          (s\<lparr>lb_stats := (lb_stats s)\<lparr>lb_active := lb_active (lb_stats s) + 1\<rparr>\<rparr>)
      else if idle_count < LB_IDLE_CHECKS then
        (let s1 = s\<lparr>lb_stats := (lb_stats s)\<lparr>lb_idle := lb_idle (lb_stats s) + 1\<rparr>\<rparr>;
             s2 = record_call (Call ''backup_load_balancer_config'' [lb_arn]) s1;
             (s3, raised) =
               put_item (lb_put_item_raises out)
                 ((lb_item lb out ''IDLE_WARNING'')
                    \<lparr>IdleCount := Some (idle_count + 1), ConfigBackupPath := Some backup_path\<rparr>)
                 s2
         in if raised \<noteq> None then (s3, raised)
            else if idle_count = 0
            then (record_call (Call ''send_load_balancer_alert'' [lb_arn, ''IDLE_WARNING'']) s3, None)
            else (s3, None))
      else
        (let s1 = s\<lparr>lb_stats := (lb_stats s)\<lparr>lb_idle := lb_idle (lb_stats s) + 1\<rparr>\<rparr>;
             s2 = record_call (Call ''backup_load_balancer_config'' [lb_arn]) s1;
             s3 = record_call (Call ''delete_load_balancer'' [lb_arn]) s2
         in if delete_load_balancer out then
              (let s4 = s3\<lparr>lb_stats := (lb_stats s3)\<lparr>lb_deleted := lb_deleted (lb_stats s3) + 1\<rparr>\<rparr>;
                   monthly_savings =
                     (if lb_type \<in> set [''application'', ''network''] then 16.20 else 18.00);
                   (s5, raised) =
                     put_item (lb_put_item_raises out)
                       ((lb_item lb out ''DELETED'')
                          \<lparr>ConfigBackupPath := Some backup_path,
                           EstimatedMonthlySavings := Some monthly_savings\<rparr>)
                       s4
               in if raised \<noteq> None then (s5, raised)
                  else (record_call (Call ''send_load_balancer_alert'' [lb_arn, ''DELETED'']) s5, None))
            else (add_lb_error s3, None)))"


record vpc =
  VpcId :: string
  IsDefault :: bool
  VpcTags :: "(string \<times> string) list"

record vpc_outcomes =
  is_vpc_empty :: bool
  vpc_query_outcome :: "item list option option"
  backup_vpc_config :: bool
  delete_vpc :: bool
  vpc_put_item_raises :: bool
  vpc_put_timestamp :: int

definition vpc_item :: "vpc \<Rightarrow> vpc_outcomes \<Rightarrow> string \<Rightarrow> item" where
  "vpc_item v out status =
     empty_item\<lparr>ResourceId := Some (VpcId v),
                Timestamp := Some (vpc_put_timestamp out),
                ResourceType := Some ''VPC'',
                Status := Some status\<rparr>"

definition add_vpc_error :: "monitor_state \<Rightarrow> monitor_state" where
  "add_vpc_error s = s\<lparr>vpc_stats := (vpc_stats s)\<lparr>vpc_errors := vpc_errors (vpc_stats s) + 1\<rparr>\<rparr>"

definition add_vpc_active :: "monitor_state \<Rightarrow> monitor_state" where
  "add_vpc_active s = s\<lparr>vpc_stats := (vpc_stats s)\<lparr>vpc_active := vpc_active (vpc_stats s) + 1\<rparr>\<rparr>"

definition process_vpc ::
  "string \<Rightarrow> vpc \<Rightarrow> vpc_outcomes \<Rightarrow> monitor_state \<Rightarrow> monitor_state \<times> exn option" where
  "process_vpc S3_BUCKET v out s =
     (let vpc_id = VpcId v;
          is_empty = is_vpc_empty out;
          history = get_resource_history (vpc_query_outcome out);
          empty_count = count_checks [''EMPTY'', ''EMPTY_WARNING''] [''ACTIVE''] (rev history) 0;
          backup_path = config_backup_path S3_BUCKET ''vpc-configs'' vpc_id
      in
      if \<not> is_empty then
        put_item (vpc_put_item_raises out) (vpc_item v out ''ACTIVE'') (add_vpc_active s)
      else if empty_count < VPC_IDLE_CHECKS then
        (let s1 = s\<lparr>vpc_stats := (vpc_stats s)\<lparr>vpc_empty := vpc_empty (vpc_stats s) + 1\<rparr>\<rparr>;
             s2 = record_call (Call ''backup_vpc_config'' [vpc_id]) s1;
             (s3, raised) =
               put_item (vpc_put_item_raises out)
                 ((vpc_item v out ''EMPTY_WARNING'')
                    \<lparr>EmptyCount := Some (empty_count + 1), ConfigBackupPath := Some backup_path\<rparr>)
                 s2
         in if raised \<noteq> None then (s3, raised)
            else if empty_count = 0
            then (record_call (Call ''send_vpc_alert'' [vpc_id, ''IDLE_WARNING'']) s3, None)
            else (s3, None))
      else
        (let s1 = s\<lparr>vpc_stats := (vpc_stats s)\<lparr>vpc_empty := vpc_empty (vpc_stats s) + 1\<rparr>\<rparr>;
             s2 = record_call (Call ''backup_vpc_config'' [vpc_id]) s1;
             s3 = record_call (Call ''delete_vpc'' [vpc_id]) s2
         in if delete_vpc out then
              (let s4 = s3\<lparr>vpc_stats := (vpc_stats s3)\<lparr>vpc_deleted := vpc_deleted (vpc_stats s3) + 1\<rparr>\<rparr>;
                   (s5, raised) =
                     put_item (vpc_put_item_raises out)
                       ((vpc_item v out ''DELETED'')\<lparr>ConfigBackupPath := Some backup_path\<rparr>)
                       s4
               in if raised \<noteq> None then (s5, raised)
                  else (record_call (Call ''send_vpc_alert'' [vpc_id, ''DELETED'']) s5, None))
            else (add_vpc_error s3, None)))"



datatype response_body = Completed ec2_stats | ErrorMessage

record response =
  statusCode :: int
  body :: response_body

definition initial_state :: monitor_state where
  "initial_state =
     \<lparr>stats = \<lparr>total_instances = 0, active_instances = 0, idle_instances = 0,
               backed_up = 0, errors = 0\<rparr>,
      nat_stats = \<lparr>nat_total = 0, nat_active = 0, nat_idle = 0, nat_deleted = 0,
                   nat_errors = 0\<rparr>,
      eip_stats = \<lparr>eip_total = 0, eip_attached = 0, eip_unattached = 0, eip_released = 0,
                   eip_errors = 0\<rparr>,
      rds_stats = \<lparr>rds_total = 0, rds_active = 0, rds_idle = 0, rds_stopped = 0,
                   rds_deleted = 0, rds_errors = 0\<rparr>,
      s3_stats = \<lparr>s3_total = 0, s3_empty = 0, s3_has_data = 0, s3_protected = 0,
                  s3_lifecycle_applied = 0, s3_deleted = 0, s3_errors = 0\<rparr>,
      ebs_stats = \<lparr>ebs_total = 0, ebs_in_use = 0, ebs_available = 0,
                   ebs_snapshots_created = 0, ebs_deleted = 0, ebs_errors = 0\<rparr>,
      lb_stats = \<lparr>lb_total = 0, lb_active = 0, lb_idle = 0, lb_deleted = 0, lb_errors = 0\<rparr>,
      vpc_stats = \<lparr>vpc_total = 0, vpc_empty = 0, vpc_active = 0, vpc_deleted = 0,
                   vpc_errors = 0\<rparr>,
      calls = []\<rparr>"


subsection \<open>Shapes of a history\<close>

text \<open>
  Two predicates on history records, used to describe a history in the statements below:
  a record that the scan counts as idle, a record at which the scan does not stop, and a
  history that is empty or whose newest record is ACTIVE.
\<close>

definition is_idle_status :: "item \<Rightarrow> bool" where
  "is_idle_status e = (get_or (Status e) ''UNKNOWN'' \<in> set [''IDLE'', ''IDLE_WARNING''])"

definition not_active_or_quarantine :: "item \<Rightarrow> bool" where
  "not_active_or_quarantine e =
     (get_or (Status e) ''UNKNOWN'' \<notin> set [''ACTIVE'', ''QUARANTINE''])"

definition ends_active :: "item list \<Rightarrow> bool" where
  "ends_active older = (case rev older of [] \<Rightarrow> True | e # es \<Rightarrow> Status e = Some ''ACTIVE'')"

text \<open>
  The steps of the cycle that take a resource out of service: the calls that stop, delete
  or release it, and the items that record it as QUARANTINE, STOPPED, DELETED or RELEASED.
\<close>

fun destructive :: "call \<Rightarrow> bool" where
  "destructive (Call name args) =
     (name \<in> set [''stop_instance'', ''terminate_instance'', ''delete_security_groups'',
                  ''delete_nat_gateway'', ''release_elastic_ip'', ''stop_rds_instance'',
                  ''delete_rds_instance'', ''delete_empty_bucket'', ''delete_ebs_volume'',
                  ''delete_load_balancer'', ''delete_vpc''])"
| "destructive (PutItem it) =
     (Status it \<in> set [Some ''QUARANTINE'', Some ''STOPPED'', Some ''DELETED'', Some ''RELEASED''])"


subsection \<open>Floats\<close>

text \<open>
  A Python float is an IEEE 754 double. \<open>py_float x\<close> is the double nearest to the real
  number \<open>x\<close>, a tie going to the even mantissa: for \<open>x\<close> with
  \<open>2 ^ e \<le> \<bar>x\<bar> < 2 ^ (e + 1)\<close> the doubles around \<open>x\<close> are the multiples of
  \<open>2 ^ (e - 52)\<close>, and below \<open>2 ^ (- 1022)\<close> the multiples of \<open>2 ^ (- 1074)\<close>. A float
  literal \<^verbatim>\<open>d\<close> of the source is \<open>py_float d\<close>, and the sum and the product of two floats
  are \<open>py_float\<close> of the exact sum and product. A result beyond the largest double
  (about \<open>1.8 * 10 ^ 308\<close>) is not modelled; the amounts of the calculator are sums of
  monthly prices.

  \<open>round_half_even\<close> rounds a real number to the nearest integer, a tie going to the even
  one; \<open>float_exponent x\<close> is the \<open>e\<close> above for a positive \<open>x\<close>; \<open>scale2 x e\<close> is
  \<open>x * 2 ^ e\<close> for an integer \<open>e\<close> of either sign.
\<close>

definition round_half_even :: "real \<Rightarrow> int" where
  "round_half_even x =
     (let n = \<lfloor>x\<rfloor>; f = x - of_int n in
      if f < 1 / 2 then n else if f > 1 / 2 then n + 1 else if even n then n else n + 1)"

definition float_exponent :: "real \<Rightarrow> int" where
  "float_exponent x = (if 1 \<le> x then bitlen \<lfloor>x\<rfloor> - 1 else - bitlen (\<lceil>1 / x\<rceil> - 1))"

definition scale2 :: "real \<Rightarrow> int \<Rightarrow> real" where
  "scale2 x e = (if 0 \<le> e then x * 2 ^ nat e else x / 2 ^ nat (- e))"

definition py_float :: "real \<Rightarrow> real" where
  "py_float x =
     (if x = 0 then 0
      else let e = max (float_exponent \<bar>x\<bar> - 52) (- 1074);
               m = round_half_even (scale2 \<bar>x\<bar> (- e))
           in sgn x * scale2 (of_int m) e)"


subsection \<open>\<^verbatim>\<open>pricing.py\<close>\<close>

text \<open>
  \<^verbatim>\<open>AWS_PRICING\<close> maps a region to a dictionary whose values are either one hourly
  rate or a dictionary from instance type to hourly rate. Dictionaries are association
  lists, read with \<open>map_of\<close>. The rates are float literals.
\<close>

datatype price_entry = Rate real | Rates "(string \<times> real) list"

definition AWS_PRICING :: "(string \<times> (string \<times> price_entry) list) list" where
  "AWS_PRICING =
   [(''us-east-1'',
     [(''EC2'', Rates
        [(''t2.nano'', py_float 0.0058), (''t2.micro'', py_float 0.0116),
         (''t2.small'', py_float 0.023), (''t2.medium'', py_float 0.0464),
         (''t2.large'', py_float 0.0928), (''t2.xlarge'', py_float 0.1856),
         (''t2.2xlarge'', py_float 0.3712), (''t3.nano'', py_float 0.0052),
         (''t3.micro'', py_float 0.0104), (''t3.small'', py_float 0.0208),
         (''t3.medium'', py_float 0.0416), (''t3.large'', py_float 0.0832),
         (''t3.xlarge'', py_float 0.1664), (''t3.2xlarge'', py_float 0.3328),
         (''t4g.nano'', py_float 0.0042), (''t4g.micro'', py_float 0.0084),
         (''t4g.small'', py_float 0.0168), (''t4g.medium'', py_float 0.0336),
         (''t4g.large'', py_float 0.0672), (''m5.large'', py_float 0.096),
         (''m5.xlarge'', py_float 0.192), (''m5.2xlarge'', py_float 0.384),
         (''m5.4xlarge'', py_float 0.768), (''c5.large'', py_float 0.085),
         (''c5.xlarge'', py_float 0.17), (''c5.2xlarge'', py_float 0.34),
         (''r5.large'', py_float 0.126), (''r5.xlarge'', py_float 0.252),
         (''r5.2xlarge'', py_float 0.504)]),
      (''RDS'', Rates
        [(''db.t3.micro'', py_float 0.017), (''db.t3.small'', py_float 0.034),
         (''db.t3.medium'', py_float 0.068), (''db.t3.large'', py_float 0.136),
         (''db.t3.xlarge'', py_float 0.272), (''db.t3.2xlarge'', py_float 0.544),
         (''db.t4g.micro'', py_float 0.016), (''db.t4g.small'', py_float 0.032),
         (''db.t4g.medium'', py_float 0.064), (''db.t4g.large'', py_float 0.128),
         (''db.m5.large'', py_float 0.192), (''db.m5.xlarge'', py_float 0.384),
         (''db.m5.2xlarge'', py_float 0.768), (''db.r5.large'', py_float 0.24),
         (''db.r5.xlarge'', py_float 0.48), (''db.r5.2xlarge'', py_float 0.96)]),
      (''NAT_GATEWAY'', Rate (py_float 0.045)),
      (''ALB'', Rate (py_float 0.0225)),
      (''NLB'', Rate (py_float 0.0225)),
      (''ELB'', Rate (py_float 0.025)),
      (''EBS'', Rates
        [(''gp3'', py_float 0.08), (''gp2'', py_float 0.10), (''io1'', py_float 0.125),
         (''io2'', py_float 0.125), (''st1'', py_float 0.045), (''sc1'', py_float 0.015)]),
      (''EIP'', Rate (py_float 0.005)),
      (''VPC_ENDPOINT'', Rate (py_float 0.01)),
      (''S3_BUCKET'', Rate (py_float 0.0)),
      (''VPC'', Rate (py_float 0.0)),
      (''SUBNET'', Rate (py_float 0.0))])]"

definition HOURS_PER_MONTH :: int where
  "HOURS_PER_MONTH = 730"

definition FIXED_RATE_TYPES :: "string list" where
  "FIXED_RATE_TYPES = [''NAT_GATEWAY'', ''ALB'', ''NLB'', ''ELB'', ''EIP'', ''VPC_ENDPOINT'',
     ''S3_BUCKET'', ''VPC'', ''SUBNET'']"

text \<open>
  \<^verbatim>\<open>get_hourly_rate\<close>. The list of fixed-rate resource types is written inline in
  the source (twice, once more in \<^verbatim>\<open>calculate_savings\<close>); here it has a name. In the
  table every fixed-rate key holds a rate and every other key a dictionary; the two
  remaining cases of the case distinctions cannot occur with this table (in Python the
  second one raises inside the \<^verbatim>\<open>try\<close> and the function returns 0.0).
\<close>

definition get_hourly_rate :: "string \<Rightarrow> string \<Rightarrow> string \<Rightarrow> real" where
  "get_hourly_rate resource_type instance_type region =
     (let region_pricing = get_or (map_of AWS_PRICING region) [] in
      if resource_type \<in> set FIXED_RATE_TYPES then
        (case map_of region_pricing resource_type of
           None \<Rightarrow> 0
         | Some (Rate r) \<Rightarrow> r
         | Some (Rates t) \<Rightarrow> 0)
      else
        (case map_of region_pricing resource_type of
           None \<Rightarrow> 0
         | Some (Rates service_pricing) \<Rightarrow> get_or (map_of service_pricing instance_type) 0
         | Some (Rate r) \<Rightarrow> 0))"

text \<open>
  \<^verbatim>\<open>calculate_monthly_savings\<close>: the product of a float and an integer, which is a
  float.
\<close>

definition calculate_monthly_savings :: "string \<Rightarrow> string \<Rightarrow> string \<Rightarrow> real" where
  "calculate_monthly_savings resource_type instance_type region =
     py_float (get_hourly_rate resource_type instance_type region * real_of_int HOURS_PER_MONTH)"


subsection \<open>\<^verbatim>\<open>cost_savings_calculator.py\<close>\<close>

text \<open>
  The rows of \<^verbatim>\<open>detailed_resources\<close>, the values of \<^verbatim>\<open>savings_by_service\<close> and the
  dictionary returned by \<^verbatim>\<open>calculate_savings\<close> (without \<^verbatim>\<open>generated_at\<close>).
  \<^verbatim>\<open>savings_by_service\<close> is a dictionary in insertion order: an association list
  updated in place.

  The surroundings of the calculator are the record \<open>calculator_env\<close>: the region read
  from the environment variable \<^verbatim>\<open>REGION\<close>; the items of the table as a scan returns them,
  or \<open>None\<close> when the scan raises; the two epoch seconds that the \<^verbatim>\<open>datetime\<close> library
  computes for the first day of a month and of the next month; and the library's rendering
  of a timestamp as \<^verbatim>\<open>%Y-%m-%d\<close>.
\<close>

record detail =
  date :: string
  resource_id :: string
  resource_type :: string
  instance_type :: string
  monthly_savings :: real

record service_total =
  count :: int
  savings :: real

record savings_data =
  month :: string
  total_savings :: real
  total_resources :: nat
  savings_by_service :: "(string \<times> service_total) list"
  detailed_resources :: "detail list"

record calculator_env =
  AWS_REGION :: string
  table_scan :: "item list option"
  month_bounds :: "string \<Rightarrow> int \<times> int"
  strftime_date :: "int \<Rightarrow> string"

text \<open>
  The two parts of the scan's filter expression,
  \<^verbatim>\<open>#status IN (:deleted, :stopped)\<close> and \<^verbatim>\<open>#ts BETWEEN :start AND :end\<close>
  (inclusive at both ends). Pagination only concatenates the pages.
\<close>

definition deleted_or_stopped :: "item \<Rightarrow> bool" where
  "deleted_or_stopped r = (Status r \<in> set [Some ''DELETED'', Some ''STOPPED''])"

definition timestamp_between :: "int \<Rightarrow> int \<Rightarrow> item \<Rightarrow> bool" where
  "timestamp_between month_start_ts month_end_ts r =
     (case Timestamp r of None \<Rightarrow> False | Some t \<Rightarrow> month_start_ts \<le> t \<and> t \<le> month_end_ts)"

text \<open>The choice of \<^verbatim>\<open>instance_type\<close> in the loop of \<^verbatim>\<open>calculate_savings\<close>.\<close>

definition select_instance_type :: "item \<Rightarrow> string \<Rightarrow> string" where
  "select_instance_type resource rtype =
     (if rtype \<in> set FIXED_RATE_TYPES then rtype
      else if rtype = ''EBS'' then get_or (VolumeType resource) ''gp3''
      else get_or (InstanceType resource) (get_or (DBInstanceClass resource) ''Unknown''))"

text \<open>The update of \<^verbatim>\<open>savings_by_service[resource_type]\<close> for one resource.\<close>

definition add_to_service ::
  "(string \<times> service_total) list \<Rightarrow> string \<Rightarrow> real \<Rightarrow> (string \<times> service_total) list" where
  "add_to_service by_service rtype amount =
     (let entry = get_or (map_of by_service rtype) \<lparr>count = 0, savings = 0\<rparr> in
      AList.update rtype
        \<lparr>count = count entry + 1, savings = py_float (savings entry + amount)\<rparr> by_service)"

text \<open>The loop \<^verbatim>\<open>for resource in deleted_resources\<close>, with its two accumulators.\<close>

fun savings_loop ::
  "calculator_env \<Rightarrow> item list \<Rightarrow> (string \<times> service_total) list \<times> detail list
     \<Rightarrow> (string \<times> service_total) list \<times> detail list" where
  "savings_loop env [] acc = acc"
| "savings_loop env (resource # rest) (by_service, detailed) =
     (let rtype = get_or (ResourceType resource) ''Unknown'';
          rid = get_or (ResourceId resource) ''Unknown'';
          timestamp = get_or (Timestamp resource) 0;
          itype = select_instance_type resource rtype;
          amount = calculate_monthly_savings rtype itype (AWS_REGION env)
      in if amount > 0 then
           savings_loop env rest
             (add_to_service by_service rtype amount,
              detailed @ [\<lparr>date = strftime_date env timestamp, resource_id = rid,
                           resource_type = rtype, instance_type = itype,
                           monthly_savings = amount\<rparr>])
         else savings_loop env rest (by_service, detailed))"

text \<open>
  \<^verbatim>\<open>sum(s['savings'] for s in savings_by_service.values())\<close>: the values are added one
  after the other, in the order of the dictionary, starting from 0.
\<close>

definition sum_savings :: "(string \<times> service_total) list \<Rightarrow> real" where
  "sum_savings by_service = fold (\<lambda>(k, s) acc. py_float (acc + savings s)) by_service 0"

text \<open>
  \<^verbatim>\<open>calculate_savings\<close>. A scan that raises is not caught here: the exception leaves
  the function.
\<close>

datatype error = ScanError

definition calculate_savings :: "calculator_env \<Rightarrow> string \<Rightarrow> error + savings_data" where
  "calculate_savings env m =
     (let (month_start_ts, month_end_ts) = month_bounds env m in
      case table_scan env of
        None \<Rightarrow> Inl ScanError
      | Some items \<Rightarrow>
          let deleted_resources =
                filter (\<lambda>r. deleted_or_stopped r \<and> timestamp_between month_start_ts month_end_ts r)
                  items;
              (by_service, detailed) = savings_loop env deleted_resources ([], [])
          in Inr \<lparr>month = m,
                  total_savings = sum_savings by_service,
                  total_resources = length detailed,
                  savings_by_service = by_service,
                  detailed_resources = detailed\<rparr>)"

text \<open>
  \<^verbatim>\<open>calculate_cumulative_savings\<close>. Its scan has no time bound and the projection
  \<^verbatim>\<open>ProjectionExpression='ResourceType, InstanceType'\<close>: the items it returns carry these
  two attributes only. The whole body is inside \<^verbatim>\<open>try/except\<close>, which returns 0.0.
\<close>

definition project_type_attrs :: "item \<Rightarrow> item" where
  "project_type_attrs r =
     empty_item\<lparr>ResourceType := ResourceType r, InstanceType := InstanceType r\<rparr>"

fun cumulative_loop :: "string \<Rightarrow> item list \<Rightarrow> real \<Rightarrow> real" where
  "cumulative_loop region [] running = running"
| "cumulative_loop region (r # rest) running =
     cumulative_loop region rest
       (py_float (running + calculate_monthly_savings (get_or (ResourceType r) ''Unknown'')
                    (get_or (InstanceType r) ''Unknown'') region))"

definition calculate_cumulative_savings :: "calculator_env \<Rightarrow> real" where
  "calculate_cumulative_savings env =
     (case table_scan env of
        None \<Rightarrow> 0
      | Some items \<Rightarrow>
          cumulative_loop (AWS_REGION env)
            (map project_type_attrs (filter deleted_or_stopped items)) 0)"

text \<open>
  \<^verbatim>\<open>generate_csv_report\<close>. \<open>str_nat\<close> is \<^verbatim>\<open>str\<close> on a length; \<open>format_2f\<close> is the
  format \<^verbatim>\<open>:.2f\<close> of a float: the exact value of the double, rounded to the nearest
  hundredth, a tie going to the even neighbour. Its argument is a float, and \<open>py_float\<close>
  leaves a float as it is; a real number that no double holds is read as the literal of
  the source would be, so that \<open>format_2f 2.675\<close> is \<^verbatim>\<open>2.67\<close> as in Python, the double
  of that literal being less than 2.675. \<open>join_lines\<close> joins the lines with the newline
  character between them.
\<close>

definition digit_char :: "nat \<Rightarrow> char" where
  "digit_char d = ''0123456789'' ! d"

fun str_nat :: "nat \<Rightarrow> string" where
  "str_nat n = (if n < 10 then [digit_char n] else str_nat (n div 10) @ [digit_char (n mod 10)])"

declare str_nat.simps [simp del]

definition format_2f :: "real \<Rightarrow> string" where
  "format_2f x =
     (let v = py_float x;
          cents = nat (round_half_even (\<bar>v\<bar> * 100))
      in (if v < 0 then ''-'' else '''') @ str_nat (cents div 100) @ ''.''
           @ [digit_char (cents mod 100 div 10), digit_char (cents mod 10)])"

definition join_lines :: "string list \<Rightarrow> string" where
  "join_lines ls = (case ls of [] \<Rightarrow> [] | l # rest \<Rightarrow> l @ concat (map (\<lambda>x. CHR 0x0A # x) rest))"

definition csv_row :: "detail \<Rightarrow> string" where
  "csv_row resource = date resource @ '','' @ resource_id resource @ '','' @ resource_type resource
     @ '','' @ instance_type resource @ '','' @ ''$'' @ format_2f (monthly_savings resource)"

definition csv_lines :: "savings_data \<Rightarrow> string list" where
  "csv_lines sd =
     (let lines0 = [] @ [''Date,Resource ID,Resource Type,Instance Type,Monthly Savings''];
          lines1 = fold (\<lambda>resource ls. ls @ [csv_row resource]) (detailed_resources sd) lines0;
          lines2 = lines1 @ [''''];
          lines3 = lines2 @ [''Total Savings,,,$'' @ format_2f (total_savings sd)];
          lines4 = lines3 @ [''Total Resources,,,'' @ str_nat (total_resources sd)]
      in lines4)"

definition generate_csv_report :: "savings_data \<Rightarrow> string" where
  "generate_csv_report sd = join_lines (csv_lines sd)"

subsection \<open>Notions used in the statements about the calculator\<close>

text \<open>
  The value \<^verbatim>\<open>monthly_savings\<close> that the loop of \<^verbatim>\<open>calculate_savings\<close> computes for one
  record, and the row it appends for it; the filter of the monthly scan; and the
  non-negativity of an entry of the pricing table; the dictionary of hourly rates per
  instance class that the pricing table holds for a region and a resource type (empty when
  it holds none).
\<close>

definition resource_savings :: "calculator_env \<Rightarrow> item \<Rightarrow> real" where
  "resource_savings env resource =
     (let rtype = get_or (ResourceType resource) ''Unknown'' in
      calculate_monthly_savings rtype (select_instance_type resource rtype) (AWS_REGION env))"

definition detail_of :: "calculator_env \<Rightarrow> item \<Rightarrow> detail" where
  "detail_of env resource =
     (let rtype = get_or (ResourceType resource) ''Unknown'' in
      \<lparr>date = strftime_date env (get_or (Timestamp resource) 0),
       resource_id = get_or (ResourceId resource) ''Unknown'',
       resource_type = rtype,
       instance_type = select_instance_type resource rtype,
       monthly_savings = resource_savings env resource\<rparr>)"

fun entry_nonneg :: "price_entry \<Rightarrow> bool" where
  "entry_nonneg (Rate r) = (0 \<le> r)"
| "entry_nonneg (Rates t) = list_all (\<lambda>kv. 0 \<le> snd kv) t"

definition instance_rates :: "string \<Rightarrow> string \<Rightarrow> (string \<times> real) list" where
  "instance_rates region rtype =
     (case map_of (get_or (map_of AWS_PRICING region) []) rtype of
        Some (Rates t) \<Rightarrow> t
      | Some (Rate r) \<Rightarrow> []
      | None \<Rightarrow> [])"

definition month_window :: "calculator_env \<Rightarrow> string \<Rightarrow> item \<Rightarrow> bool" where
  "month_window env m r =
     (deleted_or_stopped r \<and> timestamp_between (fst (month_bounds env m)) (snd (month_bounds env m)) r)"

subsection \<open>Example inputs\<close>

text \<open>
  A running instance without tags; outcomes for it in which the history query raises, the
  CPU average is 1 percent and the write to the table raises or not; outcomes for an idle
  NAT gateway without history; one resource of each other type whose processing raises
  (for the bucket, reading the tags; for the others, the write of an item that records the
  resource as in use); and a cycle over two such instances, the first of which fails to
  write, one such gateway, and these resources.
\<close>

definition example_instance :: "string \<Rightarrow> ec2_instance" where
  "example_instance iid =
     \<lparr>InstanceId = iid, State = ''running'', Tags = [], InstanceType' = ''t3.micro''\<rparr>"

definition example_outcomes :: "bool \<Rightarrow> ec2_outcomes" where
  "example_outcomes raises =
     \<lparr>query_outcome = None, get_cpu_utilization = 1, clock = 1700000000,
      backup_instance_config = True, stop_instance = None, list_objects_v2 = Some 0,
      terminate_instance = False, put_item_raises = raises, put_timestamp = 1700000000\<rparr>"

definition example_nat_outcomes :: "bool \<Rightarrow> nat_outcomes" where
  "example_nat_outcomes raises =
     \<lparr>check_nat_gateway_usage = True, nat_query_outcome = Some (Some []),
      backup_nat_gateway_config = True, delete_nat_gateway = (False, False),
      nat_put_item_raises = raises, nat_put_timestamp = 1700000000\<rparr>"

definition example_eip :: "elastic_ip \<times> eip_outcomes" where
  "example_eip =
     (\<lparr>AllocationId = ''eipalloc-1'', EipTags = [], AssociationId = Some ''eipassoc-1'',
       EipInstanceId = None, NetworkInterfaceId = None\<rparr>,
      \<lparr>eip_query_outcome = None, release_elastic_ip = False, eip_put_item_raises = True,
       eip_put_timestamp = 1700000000\<rparr>)"

definition example_db :: "db_instance \<times> rds_outcomes" where
  "example_db =
     (\<lparr>DBInstanceIdentifier = ''db-1'', DBInstanceStatus = ''available'', TagList = [],
       DBInstanceClass' = ''db.t3.micro''\<rparr>,
      \<lparr>rds_query_outcome = None, check_rds_usage = False, rds_clock = 1700000000,
       backup_rds_config = False, create_rds_snapshot = None, stop_rds_instance = False,
       delete_rds_instance = False, rds_put_item_raises = True,
       rds_put_timestamp = 1700000000\<rparr>)"

definition example_bucket :: "s3_bucket \<times> s3_outcomes" where
  "example_bucket =
     (\<lparr>Name = ''bucket-1''\<rparr>,
      \<lparr>get_bucket_tags = None, is_bucket_empty = False, s3_query_outcome = None,
       delete_empty_bucket = False, get_bucket_lifecycle_configuration = LifecycleFound,
       apply_lifecycle_policy = False, s3_put_lifecycle_raises = False,
       s3_put_item_raises = False, s3_put_timestamp = 1700000000\<rparr>)"

definition example_volume :: "ebs_volume \<times> ebs_outcomes" where
  "example_volume =
     (\<lparr>VolumeId = ''vol-1'', VolumeState = ''in-use'', Size = 8, VolumeType' = ''gp3'',
       Iops = None, VolumeTags = []\<rparr>,
      \<lparr>ebs_query_outcome = None, backup_ebs_volume_config = False,
       create_ebs_snapshot = None, delete_ebs_volume = False, ebs_put_item_raises = True,
       ebs_put_timestamp = 1700000000\<rparr>)"

definition example_lb :: "load_balancer \<times> lb_outcomes" where
  "example_lb =
     (\<lparr>LoadBalancerArn = ''arn-lb-1'', LoadBalancerName = ''lb-1'',
       LoadBalancerType = Some ''application''\<rparr>,
      \<lparr>describe_tags = Some [], check_load_balancer_usage = False, lb_query_outcome = None,
       backup_load_balancer_config = False, delete_load_balancer = False,
       lb_put_item_raises = True, lb_put_timestamp = 1700000000\<rparr>)"

definition example_vpc :: "vpc \<times> vpc_outcomes" where
  "example_vpc =
     (\<lparr>VpcId = ''vpc-1'', IsDefault = False, VpcTags = []\<rparr>,
      \<lparr>is_vpc_empty = False, vpc_query_outcome = None, backup_vpc_config = False,
       delete_vpc = False, vpc_put_item_raises = True, vpc_put_timestamp = 1700000000\<rparr>)"



section \<open>Properties\<close>

text \<open>
  C2 (active wins). For every configuration, every history and every clock value, a
  current CPU average at or above the idle threshold makes the decision
  \<open>(ACTIVE, 0, None)\<close>: action ACTIVE, idle count 0 and no quarantine marker. Under
  the constants of the module the threshold is 5 percent.
\<close>

theorem determine_action_active_wins:
  "(CPU_IDLE_THRESHOLD cfg \<le> cpu \<longrightarrow>
      determine_action_with cfg now history cpu = (''ACTIVE'', 0, None))
   \<and> (5 \<le> cpu \<longrightarrow> determine_action now history cpu = (''ACTIVE'', 0, None))"
  by (simp add: determine_action_with_def determine_action_def module_config_def)

theorem determine_action_active_wins_witness:
  "CPU_IDLE_THRESHOLD module_config \<le> 80 \<and> (5::real) \<le> 80
   \<and> determine_action_with module_config 1000
        [empty_item\<lparr>Status := Some ''QUARANTINE'', Timestamp := Some 10\<rparr>] 80
      = (''ACTIVE'', 0, None)
   \<and> determine_action 1000
        [empty_item\<lparr>Status := Some ''QUARANTINE'', Timestamp := Some 10\<rparr>] 80
      = (''ACTIVE'', 0, None)"
  using determine_action_active_wins
    [of module_config 80 1000 "[empty_item\<lparr>Status := Some ''QUARANTINE'', Timestamp := Some 10\<rparr>]"]
  by (simp add: module_config_def)

lemma scan_history_quarantine:
  assumes "list_all not_active_or_quarantine newer"
    and "Status qrec = Some ''QUARANTINE''" and "Timestamp qrec = Some q"
  shows "scan_history (newer @ qrec # older) n =
         (n + int (length (filter is_idle_status newer)) + 1,
          if q \<noteq> 0 then Some (real_of_int q) else None)"
  using assms
  by (induction newer arbitrary: n)
     (auto simp: get_or_def is_idle_status_def not_active_or_quarantine_def Let_def)

lemma days_ge_iff:
  fixes e :: real and g :: int
  shows "(real_of_int g \<le> e / 86400) = (86400 * real_of_int g \<le> e)"
    and "(real_of_int g \<le> e / 86400) = (g \<le> \<lfloor>e / 86400\<rfloor>)"
  by (auto simp: field_simps le_floor_iff)

text \<open>
  C3 (grace period boundary). Let the history be \<open>older @ qrec # newer\<close> (oldest
  first), where \<open>qrec\<close> is a QUARANTINE record with timestamp \<open>q\<close> and no record of
  \<open>newer\<close> is ACTIVE or QUARANTINE, and let the current CPU average be below the idle
  threshold. The timestamp of a record is the epoch second at which it was written, and
  the history query returns the records of the last 30 days, so \<open>q\<close> is not zero. Then,
  for every setting of the constants, the decision is DELETE when \<open>now - q\<close> is at least
  \<open>GRACE_PERIOD_DAYS\<close> days of 86400 seconds (the boundary included) and QUARANTINE when
  it is less; the idle count is one more than the number of idle records of \<open>newer\<close>, and
  the quarantine date is \<open>q\<close>. Equivalently the decision is DELETE exactly when the
  elapsed days, rounded down, reach the grace period. Under the constants of the module,
  whose grace period is 0 days, the same holds for a timestamp \<open>q = 0\<close> as well, the clock
  not being negative: the decision is DELETE when \<open>now - q\<close> is at least 0 and QUARANTINE
  when it is less.
\<close>

theorem grace_period_boundary:
  assumes newer: "list_all not_active_or_quarantine newer"
    and q: "Status qrec = Some ''QUARANTINE''" "Timestamp qrec = Some q"
  shows "(q \<noteq> 0 \<and> cpu < CPU_IDLE_THRESHOLD cfg \<longrightarrow>
           determine_action_with cfg now (older @ qrec # newer) cpu =
             (if 86400 * real_of_int (GRACE_PERIOD_DAYS cfg) \<le> now - real_of_int q
              then ''DELETE'' else ''QUARANTINE'',
              int (length (filter is_idle_status newer)) + 1,
              Some (real_of_int q))
           \<and> (fst (determine_action_with cfg now (older @ qrec # newer) cpu) = ''DELETE''
                \<longleftrightarrow> GRACE_PERIOD_DAYS cfg \<le> \<lfloor>(now - real_of_int q) / 86400\<rfloor>))
         \<and> (cpu < 5 \<and> (q \<noteq> 0 \<or> 0 \<le> now) \<longrightarrow>
              fst (determine_action now (older @ qrec # newer) cpu) =
                (if 86400 * real_of_int (GRACE_PERIOD_DAYS module_config) \<le> now - real_of_int q
                 then ''DELETE'' else ''QUARANTINE'')
              \<and> fst (snd (determine_action now (older @ qrec # newer) cpu)) =
                  int (length (filter is_idle_status newer)) + 1)"
proof -
  have n: "list_all not_active_or_quarantine (rev newer)"
    using newer by (simp add: list_all_iff)
  have s: "scan_history (rev (older @ qrec # newer)) 0 =
             (int (length (filter is_idle_status newer)) + 1,
              if q \<noteq> 0 then Some (real_of_int q) else None)"
    using scan_history_quarantine [OF n q(1) q(2), of "rev older" 0]
    by (simp add: rev_filter [symmetric])
  have d: "determine_action_with c now (older @ qrec # newer) cpu =
           (if 86400 * real_of_int (GRACE_PERIOD_DAYS c) \<le> now - real_of_int q
            then ''DELETE'' else ''QUARANTINE'',
            int (length (filter is_idle_status newer)) + 1,
            Some (real_of_int q))"
    if "q \<noteq> 0" "cpu < CPU_IDLE_THRESHOLD c" for c
    unfolding determine_action_with_def s
    using that by (simp add: truthy_date_def days_ge_iff(1))
  have general: "q \<noteq> 0 \<and> cpu < CPU_IDLE_THRESHOLD cfg \<longrightarrow>
           determine_action_with cfg now (older @ qrec # newer) cpu =
             (if 86400 * real_of_int (GRACE_PERIOD_DAYS cfg) \<le> now - real_of_int q
              then ''DELETE'' else ''QUARANTINE'',
              int (length (filter is_idle_status newer)) + 1,
              Some (real_of_int q))
           \<and> (fst (determine_action_with cfg now (older @ qrec # newer) cpu) = ''DELETE''
                \<longleftrightarrow> GRACE_PERIOD_DAYS cfg \<le> \<lfloor>(now - real_of_int q) / 86400\<rfloor>)"
  proof
    assume a: "q \<noteq> 0 \<and> cpu < CPU_IDLE_THRESHOLD cfg"
    then have nz: "q \<noteq> 0" and idle: "cpu < CPU_IDLE_THRESHOLD cfg" by simp_all
    show "determine_action_with cfg now (older @ qrec # newer) cpu =
             (if 86400 * real_of_int (GRACE_PERIOD_DAYS cfg) \<le> now - real_of_int q
              then ''DELETE'' else ''QUARANTINE'',
              int (length (filter is_idle_status newer)) + 1,
              Some (real_of_int q))
           \<and> (fst (determine_action_with cfg now (older @ qrec # newer) cpu) = ''DELETE''
                \<longleftrightarrow> GRACE_PERIOD_DAYS cfg \<le> \<lfloor>(now - real_of_int q) / 86400\<rfloor>)"
      unfolding d [OF nz idle] by (simp add: days_ge_iff [symmetric])
  qed
  have zero: "determine_action now (older @ qrec # newer) cpu =
                (''DELETE'', int (length (filter is_idle_status newer)) + 1, None)"
    if "q = 0" "cpu < 5"
    unfolding determine_action_def determine_action_with_def s
    using that by (simp add: truthy_date_def module_config_def)
  have module: "cpu < 5 \<and> (q \<noteq> 0 \<or> 0 \<le> now) \<longrightarrow>
              fst (determine_action now (older @ qrec # newer) cpu) =
                (if 86400 * real_of_int (GRACE_PERIOD_DAYS module_config) \<le> now - real_of_int q
                 then ''DELETE'' else ''QUARANTINE'')
              \<and> fst (snd (determine_action now (older @ qrec # newer) cpu)) =
                  int (length (filter is_idle_status newer)) + 1"
  proof
    assume a: "cpu < 5 \<and> (q \<noteq> 0 \<or> 0 \<le> now)"
    then have m: "cpu < CPU_IDLE_THRESHOLD module_config"
      by (simp add: module_config_def)
    show "fst (determine_action now (older @ qrec # newer) cpu) =
                (if 86400 * real_of_int (GRACE_PERIOD_DAYS module_config) \<le> now - real_of_int q
                 then ''DELETE'' else ''QUARANTINE'')
              \<and> fst (snd (determine_action now (older @ qrec # newer) cpu)) =
                  int (length (filter is_idle_status newer)) + 1"
    proof (cases "q = 0")
      case True
      with a show ?thesis by (simp add: zero module_config_def)
    next
      case False
      then show ?thesis by (simp add: determine_action_def d [OF False m])
    qed
  qed
  show ?thesis using general module by blast
qed

theorem grace_period_boundary_witness:
  "determine_action_with (module_config\<lparr>GRACE_PERIOD_DAYS := 7\<rparr>) (1700000000 + 7 * 86400)
     ([empty_item\<lparr>Status := Some ''ACTIVE'', Timestamp := Some 1699000000\<rparr>]
       @ empty_item\<lparr>Status := Some ''QUARANTINE'', Timestamp := Some 1700000000\<rparr>
       # [empty_item\<lparr>Status := Some ''IDLE_WARNING'', Timestamp := Some 1700003600\<rparr>]) 2
   = (''DELETE'', 2, Some 1700000000)
   \<and> determine_action_with (module_config\<lparr>GRACE_PERIOD_DAYS := 7\<rparr>) (1700000000 + 7 * 86400 - 1)
     ([] @ empty_item\<lparr>Status := Some ''QUARANTINE'', Timestamp := Some 1700000000\<rparr> # []) 2
   = (''QUARANTINE'', 1, Some 1700000000)
   \<and> fst (determine_action 1700000060
       ([] @ empty_item\<lparr>Status := Some ''QUARANTINE'', Timestamp := Some 1700000000\<rparr> # []) 2)
   = ''DELETE''
   \<and> fst (determine_action 86400
       ([] @ empty_item\<lparr>Status := Some ''QUARANTINE'', Timestamp := Some 0\<rparr> # []) 2)
   = ''DELETE''"
  using grace_period_boundary
    [where newer = "[empty_item\<lparr>Status := Some ''IDLE_WARNING'', Timestamp := Some 1700003600\<rparr>]"
       and qrec = "empty_item\<lparr>Status := Some ''QUARANTINE'', Timestamp := Some 1700000000\<rparr>"
       and q = 1700000000 and cpu = 2 and cfg = "module_config\<lparr>GRACE_PERIOD_DAYS := 7\<rparr>"
       and now = "1700000000 + 7 * 86400"
       and older = "[empty_item\<lparr>Status := Some ''ACTIVE'', Timestamp := Some 1699000000\<rparr>]"]
    grace_period_boundary
    [where newer = "[]"
       and qrec = "empty_item\<lparr>Status := Some ''QUARANTINE'', Timestamp := Some 1700000000\<rparr>"
       and q = 1700000000 and cpu = 2 and cfg = "module_config\<lparr>GRACE_PERIOD_DAYS := 7\<rparr>"
       and now = "1700000000 + 7 * 86400 - 1" and older = "[]"]
    grace_period_boundary
    [where newer = "[]"
       and qrec = "empty_item\<lparr>Status := Some ''QUARANTINE'', Timestamp := Some 1700000000\<rparr>"
       and q = 1700000000 and cpu = 2 and cfg = module_config
       and now = 1700000060 and older = "[]"]
    grace_period_boundary
    [where newer = "[]"
       and qrec = "empty_item\<lparr>Status := Some ''QUARANTINE'', Timestamp := Some 0\<rparr>"
       and q = 0 and cpu = 2 and cfg = module_config
       and now = 86400 and older = "[]"]
  by (simp add: module_config_def empty_item_def not_active_or_quarantine_def
        is_idle_status_def get_or_def)

subsection \<open>History read failures\<close>

text \<open>
  With a history query that raises, the steps taken for one resource, of any of the eight
  types, contain no destructive call and no item that records the resource as out of
  service.
\<close>

lemma no_history_ec2:
  "query_outcome out = None \<Longrightarrow>
   \<not> list_ex destructive (calls (fst (process_instance module_config b i out initial_state)))"
  by (simp add: process_instance_def get_resource_history_def determine_action_with_def
      module_config_def truthy_date_def put_item_def record_call_def ec2_item_def
      empty_item_def initial_state_def Let_def)

lemma no_history_nat:
  "nat_query_outcome out = None \<Longrightarrow>
   \<not> list_ex destructive (calls (fst (process_nat_gateway b g out initial_state)))"
  by (simp add: process_nat_gateway_def get_resource_history_def put_item_def record_call_def
      nat_item_def empty_item_def initial_state_def Let_def)

lemma no_history_eip:
  "eip_query_outcome out = None \<Longrightarrow>
   \<not> list_ex destructive (calls (fst (process_elastic_ip e out initial_state)))"
  by (simp add: process_elastic_ip_def get_resource_history_def put_item_def record_call_def
      eip_item_def empty_item_def initial_state_def Let_def)

lemma no_history_rds:
  "rds_query_outcome out = None \<Longrightarrow>
   \<not> list_ex destructive (calls (fst (process_db_instance b d out initial_state)))"
  by (simp add: process_db_instance_def get_resource_history_def put_item_def record_call_def
      rds_item_def empty_item_def initial_state_def Let_def)

lemma no_history_s3:
  "s3_query_outcome out = None \<Longrightarrow>
   \<not> list_ex destructive (calls (fst (process_s3_bucket k out initial_state)))"
  by (simp add: process_s3_bucket_def get_resource_history_def put_item_def record_call_def
      s3_item_def empty_item_def initial_state_def add_s3_error_def Let_def
      split: option.splits lifecycle_outcome.splits)

lemma no_history_ebs:
  "ebs_query_outcome out = None \<Longrightarrow>
   \<not> list_ex destructive (calls (fst (process_ebs_volume b v out initial_state)))"
  by (simp add: process_ebs_volume_def get_resource_history_def put_item_def record_call_def
      ebs_item_def empty_item_def initial_state_def Let_def)

lemma no_history_lb:
  "lb_query_outcome out = None \<Longrightarrow>
   \<not> list_ex destructive (calls (fst (process_load_balancer b l out initial_state)))"
  by (simp add: process_load_balancer_def get_resource_history_def put_item_def record_call_def
      lb_item_def empty_item_def initial_state_def LB_IDLE_CHECKS_def Let_def)

lemma no_history_vpc:
  "vpc_query_outcome out = None \<Longrightarrow>
   \<not> list_ex destructive (calls (fst (process_vpc b v out initial_state)))"
  by (simp add: process_vpc_def get_resource_history_def put_item_def record_call_def
      vpc_item_def empty_item_def initial_state_def VPC_IDLE_CHECKS_def add_vpc_active_def
      Let_def)

text \<open>
  C9 (history read failure). When the history query raises, \<^verbatim>\<open>get_resource_history\<close>
  returns the empty list; on it the decision for an idle signal (CPU below 5 percent) is
  \<open>(WARN, 0, None)\<close>, and for no signal at all is the action QUARANTINE or DELETE. In the
  cycle, for a resource of each of the eight types whose history query raises, no call
  stops, deletes or releases the resource and no item written for it has the status
  QUARANTINE, STOPPED, DELETED or RELEASED.
\<close>

theorem history_failure_never_escalates:
  "get_resource_history None = []
   \<and> (cpu < 5 \<longrightarrow> determine_action now (get_resource_history None) cpu = (''WARN'', 0, None))
   \<and> fst (determine_action now (get_resource_history None) cpu) \<noteq> ''QUARANTINE''
   \<and> fst (determine_action now (get_resource_history None) cpu) \<noteq> ''DELETE''
   \<and> (query_outcome eout = None \<longrightarrow>
        \<not> list_ex destructive
            (calls (fst (process_instance module_config bucket inst eout initial_state))))
   \<and> (nat_query_outcome nout = None \<longrightarrow>
        \<not> list_ex destructive (calls (fst (process_nat_gateway bucket nat_gw nout initial_state))))
   \<and> (eip_query_outcome iout = None \<longrightarrow>
        \<not> list_ex destructive (calls (fst (process_elastic_ip eip iout initial_state))))
   \<and> (rds_query_outcome dout = None \<longrightarrow>
        \<not> list_ex destructive (calls (fst (process_db_instance bucket db dout initial_state))))
   \<and> (s3_query_outcome bout = None \<longrightarrow>
        \<not> list_ex destructive (calls (fst (process_s3_bucket bkt bout initial_state))))
   \<and> (ebs_query_outcome vout = None \<longrightarrow>
        \<not> list_ex destructive (calls (fst (process_ebs_volume bucket vol vout initial_state))))
   \<and> (lb_query_outcome lout = None \<longrightarrow>
        \<not> list_ex destructive (calls (fst (process_load_balancer bucket lb lout initial_state))))
   \<and> (vpc_query_outcome pout = None \<longrightarrow>
        \<not> list_ex destructive (calls (fst (process_vpc bucket net pout initial_state))))"
proof -
  have decision: "get_resource_history None = []
    \<and> (cpu < 5 \<longrightarrow> determine_action now (get_resource_history None) cpu = (''WARN'', 0, None))
    \<and> fst (determine_action now (get_resource_history None) cpu) \<noteq> ''QUARANTINE''
    \<and> fst (determine_action now (get_resource_history None) cpu) \<noteq> ''DELETE''"
    by (simp add: get_resource_history_def determine_action_def determine_action_with_def
        module_config_def truthy_date_def)
  show ?thesis
    using decision no_history_ec2 [of eout bucket inst] no_history_nat [of nout bucket nat_gw]
      no_history_eip [of iout eip] no_history_rds [of dout bucket db]
      no_history_s3 [of bout bkt] no_history_ebs [of vout bucket vol]
      no_history_lb [of lout bucket lb] no_history_vpc [of pout bucket net]
    by blast
qed

theorem history_failure_never_escalates_witness:
  "(2::real) < 5 \<and> get_resource_history None = []
   \<and> determine_action 1700000000 (get_resource_history None) 2 = (''WARN'', 0, None)
   \<and> query_outcome (example_outcomes False) = None
   \<and> \<not> list_ex destructive
        (calls (fst (process_instance module_config ''bk'' (example_instance ''i-2'')
                       (example_outcomes False) initial_state)))
   \<and> nat_query_outcome ((example_nat_outcomes False)\<lparr>nat_query_outcome := None\<rparr>) = None
   \<and> \<not> list_ex destructive
        (calls (fst (process_nat_gateway ''bk'' \<lparr>NatGatewayId = ''nat-1'', NatTags = []\<rparr>
                       ((example_nat_outcomes False)\<lparr>nat_query_outcome := None\<rparr>)
                       initial_state)))
   \<and> eip_query_outcome (snd example_eip) = None
   \<and> \<not> list_ex destructive
        (calls (fst (process_elastic_ip (fst example_eip) (snd example_eip) initial_state)))
   \<and> rds_query_outcome (snd example_db) = None
   \<and> \<not> list_ex destructive
        (calls (fst (process_db_instance ''bk'' (fst example_db) (snd example_db) initial_state)))
   \<and> s3_query_outcome (snd example_bucket) = None
   \<and> \<not> list_ex destructive
        (calls (fst (process_s3_bucket (fst example_bucket) (snd example_bucket) initial_state)))
   \<and> ebs_query_outcome (snd example_volume) = None
   \<and> \<not> list_ex destructive
        (calls (fst (process_ebs_volume ''bk'' (fst example_volume) (snd example_volume)
                       initial_state)))
   \<and> lb_query_outcome (snd example_lb) = None
   \<and> \<not> list_ex destructive
        (calls (fst (process_load_balancer ''bk'' (fst example_lb) (snd example_lb)
                       initial_state)))
   \<and> vpc_query_outcome (snd example_vpc) = None
   \<and> \<not> list_ex destructive
        (calls (fst (process_vpc ''bk'' (fst example_vpc) (snd example_vpc) initial_state)))"
proof -
  have q: "query_outcome (example_outcomes False) = None"
    "nat_query_outcome ((example_nat_outcomes False)\<lparr>nat_query_outcome := None\<rparr>) = None"
    "eip_query_outcome (snd example_eip) = None"
    "rds_query_outcome (snd example_db) = None"
    "s3_query_outcome (snd example_bucket) = None"
    "ebs_query_outcome (snd example_volume) = None"
    "lb_query_outcome (snd example_lb) = None"
    "vpc_query_outcome (snd example_vpc) = None"
    by (simp_all add: example_outcomes_def example_nat_outcomes_def example_eip_def
        example_db_def example_bucket_def example_volume_def example_lb_def example_vpc_def)
  show ?thesis
    using q history_failure_never_escalates
      [where cpu = 2 and now = 1700000000 and eout = "example_outcomes False"
         and bucket = "''bk''" and inst = "example_instance ''i-2''"
         and nout = "(example_nat_outcomes False)\<lparr>nat_query_outcome := None\<rparr>"
         and nat_gw = "\<lparr>NatGatewayId = ''nat-1'', NatTags = []\<rparr>"
         and iout = "snd example_eip" and eip = "fst example_eip"
         and dout = "snd example_db" and db = "fst example_db"
         and bout = "snd example_bucket" and bkt = "fst example_bucket"
         and vout = "snd example_volume" and vol = "fst example_volume"
         and lout = "snd example_lb" and lb = "fst example_lb"
         and pout = "snd example_vpc" and net = "fst example_vpc"]
    by auto
qed

subsection \<open>Floats\<close>

text \<open>Rounding to a double keeps zero and the sign of a non-negative number.\<close>

lemma round_half_even_nonneg: "0 \<le> x \<Longrightarrow> 0 \<le> round_half_even x"
  by (auto simp: round_half_even_def Let_def)

lemma scale2_nonneg: "0 \<le> x \<Longrightarrow> 0 \<le> scale2 x e"
  by (simp add: scale2_def)

lemma py_float_zero: "py_float 0 = 0"
  by (simp add: py_float_def)

lemma py_float_nonneg: "0 \<le> x \<Longrightarrow> 0 \<le> py_float x"
  by (auto simp: py_float_def Let_def
      intro!: scale2_nonneg round_half_even_nonneg mult_nonneg_nonneg)

lemmas py_float_eval =
  py_float_def float_exponent_def scale2_def round_half_even_def Let_def compute_bitlen

subsection \<open>The savings calculator\<close>

lemma map_of_list_all: "list_all (\<lambda>kv. P (snd kv)) t \<Longrightarrow> map_of t k = Some v \<Longrightarrow> P v"
  by (induction t) (auto split: if_splits)

lemma pricing_nonneg:
  "list_all (\<lambda>kv. list_all (\<lambda>kv. entry_nonneg (snd kv)) (snd kv)) AWS_PRICING"
  by (simp add: AWS_PRICING_def py_float_nonneg)

lemma get_hourly_rate_nonneg: "0 \<le> get_hourly_rate rt it region"
proof -
  have rp: "list_all (\<lambda>kv. entry_nonneg (snd kv)) (get_or (map_of AWS_PRICING region) [])"
  proof (cases "map_of AWS_PRICING region")
    case None
    then show ?thesis by (simp add: get_or_def)
  next
    case (Some rp)
    from map_of_list_all [OF pricing_nonneg Some] show ?thesis
      by (simp add: get_or_def Some)
  qed
  show ?thesis
  proof (cases "map_of (get_or (map_of AWS_PRICING region) []) rt")
    case None
    then show ?thesis by (simp add: get_hourly_rate_def Let_def)
  next
    case (Some e)
    have e: "entry_nonneg e" using map_of_list_all [OF rp Some] .
    show ?thesis
    proof (cases e)
      case (Rate r)
      with e Some show ?thesis by (simp add: get_hourly_rate_def Let_def)
    next
      case (Rates t)
      have "0 \<le> get_or (map_of t it) 0"
      proof (cases "map_of t it")
        case None
        then show ?thesis by (simp add: get_or_def)
      next
        case (Some v)
        from e Rates have "list_all (\<lambda>kv. 0 \<le> snd kv) t" by simp
        from map_of_list_all [OF this Some] show ?thesis by (simp add: get_or_def Some)
      qed
      with Rates Some show ?thesis by (simp add: get_hourly_rate_def Let_def)
    qed
  qed
qed

lemma resource_savings_nonneg: "0 \<le> resource_savings env r"
  using get_hourly_rate_nonneg
  by (simp add: resource_savings_def calculate_monthly_savings_def HOURS_PER_MONTH_def Let_def
      py_float_nonneg)

lemma savings_loop_step:
  "savings_loop env (r # rest) (bs, ds) =
     (if resource_savings env r > 0
      then savings_loop env rest
             (add_to_service bs (get_or (ResourceType r) ''Unknown'') (resource_savings env r),
              ds @ [detail_of env r])
      else savings_loop env rest (bs, ds))"
  by (simp add: resource_savings_def detail_of_def Let_def)

lemma savings_loop_filter:
  "savings_loop env (filter (\<lambda>r. resource_savings env r \<noteq> 0) rs) acc = savings_loop env rs acc"
proof (induction rs arbitrary: acc)
  case Nil
  then show ?case by simp
next
  case (Cons r rs)
  obtain bs ds where acc: "acc = (bs, ds)" by (cases acc)
  show ?case
    using resource_savings_nonneg [of env r] Cons.IH
    by (cases "resource_savings env r = 0") (simp_all add: acc savings_loop_step del: savings_loop.simps(2))
qed

lemma savings_loop_details:
  "snd (savings_loop env rs (bs, ds)) =
     ds @ map (detail_of env) (filter (\<lambda>r. resource_savings env r \<noteq> 0) rs)"
proof (induction rs arbitrary: bs ds)
  case Nil
  then show ?case by simp
next
  case (Cons r rs)
  show ?case
    using resource_savings_nonneg [of env r] Cons.IH
    by (cases "resource_savings env r = 0") (simp_all add: savings_loop_step del: savings_loop.simps(2))
qed

lemma fold_append_map: "fold (\<lambda>x ls. ls @ [f x]) xs acc = acc @ map f xs"
  by (induction xs arbitrary: acc) simp_all

lemma csv_lines_closed:
  "csv_lines sd =
     ''Date,Resource ID,Resource Type,Instance Type,Monthly Savings''
     # map csv_row (detailed_resources sd)
     @ ['''', ''Total Savings,,,$'' @ format_2f (total_savings sd),
        ''Total Resources,,,'' @ str_nat (total_resources sd)]"
  by (simp add: csv_lines_def fold_append_map)

lemma savings_loop_env:
  "AWS_REGION env' = AWS_REGION env \<Longrightarrow> strftime_date env' = strftime_date env \<Longrightarrow>
   savings_loop env' rs acc = savings_loop env rs acc"
proof (induction rs arbitrary: acc)
  case Nil
  then show ?case by simp
next
  case (Cons r rs)
  obtain bs ds where acc: "acc = (bs, ds)" by (cases acc)
  show ?case using Cons by (simp add: acc Let_def)
qed

lemma calculate_savings_eq:
  assumes "table_scan env = Some items"
  shows "calculate_savings env m =
     Inr \<lparr>month = m,
          total_savings =
            sum_savings (fst (savings_loop env (filter (month_window env m) items) ([], []))),
          total_resources = length (snd (savings_loop env (filter (month_window env m) items) ([], []))),
          savings_by_service = fst (savings_loop env (filter (month_window env m) items) ([], [])),
          detailed_resources = snd (savings_loop env (filter (month_window env m) items) ([], []))\<rparr>"
proof -
  have w: "month_window env m =
      (\<lambda>r. deleted_or_stopped r
         \<and> timestamp_between (fst (month_bounds env m)) (snd (month_bounds env m)) r)"
    by (simp add: fun_eq_iff month_window_def)
  show ?thesis
    unfolding w using assms by (simp add: calculate_savings_def split_beta Let_def)
qed

lemma fixed_zero_types:
  assumes "rtype \<in> set [''S3_BUCKET'', ''VPC'', ''SUBNET'']"
  shows "calculate_monthly_savings rtype itype region = 0"
proof (cases "region = ''us-east-1''")
  case True
  with assms show ?thesis
    by (auto simp: calculate_monthly_savings_def get_hourly_rate_def FIXED_RATE_TYPES_def
        AWS_PRICING_def get_or_def py_float_zero)
next
  case False
  with assms show ?thesis
    by (auto simp: calculate_monthly_savings_def get_hourly_rate_def FIXED_RATE_TYPES_def
        AWS_PRICING_def get_or_def py_float_zero)
qed

lemma absent_instance_type_zero:
  assumes "rtype \<notin> set FIXED_RATE_TYPES"
    and "map_of (get_or (map_of AWS_PRICING region) []) rtype = Some (Rates t)"
    and "map_of t itype = None"
  shows "calculate_monthly_savings rtype itype region = 0"
  using assms
  by (simp add: calculate_monthly_savings_def get_hourly_rate_def Let_def get_or_def
      py_float_zero)

text \<open>
  C10 (records without savings are left out of the monthly report). Let the scan return
  \<open>items\<close>. Removing from the table every record whose computed monthly savings is 0
  leaves the result of \<^verbatim>\<open>calculate_savings\<close> unchanged, totals, per-service entries and
  detail rows alike. The detail rows are exactly the rows of the deleted or stopped records
  of the month whose savings are not 0, \<open>total_resources\<close> is their number, each row has
  positive savings, and the CSV report has one line per row besides its four fixed lines.
  A record of type S3_BUCKET, VPC or SUBNET has computed savings 0 in every region.
\<close>

theorem zero_savings_excluded:
  assumes scan: "table_scan env = Some items"
  shows "calculate_savings (env\<lparr>table_scan := Some (filter (\<lambda>r. resource_savings env r \<noteq> 0) items)\<rparr>) m
           = calculate_savings env m
       \<and> (\<exists>sd. calculate_savings env m = Inr sd
            \<and> detailed_resources sd =
                map (detail_of env)
                  (filter (\<lambda>r. resource_savings env r \<noteq> 0) (filter (month_window env m) items))
            \<and> total_resources sd =
                length (filter (\<lambda>r. resource_savings env r \<noteq> 0) (filter (month_window env m) items))
            \<and> list_all (\<lambda>d. 0 < monthly_savings d) (detailed_resources sd)
            \<and> length (csv_lines sd) = total_resources sd + 4)
       \<and> (get_or (ResourceType r) ''Unknown'' \<in> set [''S3_BUCKET'', ''VPC'', ''SUBNET'']
            \<longrightarrow> resource_savings env r = 0)"
proof -
  let ?env' = "env\<lparr>table_scan := Some (filter (\<lambda>r. resource_savings env r \<noteq> 0) items)\<rparr>"
  let ?nz = "\<lambda>r. resource_savings env r \<noteq> 0"
  let ?scanned = "filter (month_window env m) items"
  have w: "month_window ?env' m = month_window env m"
    by (simp add: month_window_def fun_eq_iff)
  have comm: "filter (month_window env m) (filter ?nz items) = filter ?nz ?scanned"
    by (simp add: conj_commute)
  have loop: "savings_loop ?env' (filter ?nz ?scanned) ([], []) = savings_loop env ?scanned ([], [])"
    using savings_loop_env [of ?env' env] savings_loop_filter [of env ?scanned] by simp
  have scan': "table_scan ?env' = Some (filter ?nz items)" by simp
  have 1: "calculate_savings ?env' m = calculate_savings env m"
    unfolding calculate_savings_eq [OF scan'] calculate_savings_eq [OF scan] w comm loop ..
  have d: "snd (savings_loop env ?scanned ([], [])) = map (detail_of env) (filter ?nz ?scanned)"
    using savings_loop_details [of env ?scanned "[]" "[]"] by simp
  have pos: "list_all (\<lambda>d. 0 < monthly_savings d) (map (detail_of env) (filter ?nz ?scanned))"
    using resource_savings_nonneg [of env]
    by (auto simp: list_all_iff detail_of_def Let_def order_less_le)
  have 2: "\<exists>sd. calculate_savings env m = Inr sd
            \<and> detailed_resources sd = map (detail_of env) (filter ?nz ?scanned)
            \<and> total_resources sd = length (filter ?nz ?scanned)
            \<and> list_all (\<lambda>d. 0 < monthly_savings d) (detailed_resources sd)
            \<and> length (csv_lines sd) = total_resources sd + 4"
    using pos by (simp add: calculate_savings_eq [OF scan] d csv_lines_closed)
  have 3: "get_or (ResourceType r) ''Unknown'' \<in> set [''S3_BUCKET'', ''VPC'', ''SUBNET'']
            \<longrightarrow> resource_savings env r = 0"
    using fixed_zero_types by (simp add: resource_savings_def Let_def)
  show ?thesis using 1 2 3 by blast
qed

theorem zero_savings_excluded_witness:
  "map_sum id detailed_resources
     (calculate_savings
       \<lparr>AWS_REGION = ''us-east-1'',
        table_scan = Some [empty_item\<lparr>ResourceId := Some ''bucket-1'', Timestamp := Some 1700000000,
                          ResourceType := Some ''S3_BUCKET'', Status := Some ''DELETED''\<rparr>],
        month_bounds = (\<lambda>m. (1698796800, 1701388800)),
        strftime_date = (\<lambda>t. ''2023-11-14'')\<rparr> ''2023-11'') = Inr []"
  using zero_savings_excluded
    [where env = "\<lparr>AWS_REGION = ''us-east-1'',
        table_scan = Some [empty_item\<lparr>ResourceId := Some ''bucket-1'', Timestamp := Some 1700000000,
                          ResourceType := Some ''S3_BUCKET'', Status := Some ''DELETED''\<rparr>],
        month_bounds = (\<lambda>m. (1698796800, 1701388800)),
        strftime_date = (\<lambda>t. ''2023-11-14'')\<rparr>"
        and items = "[empty_item\<lparr>ResourceId := Some ''bucket-1'', Timestamp := Some 1700000000,
                          ResourceType := Some ''S3_BUCKET'', Status := Some ''DELETED''\<rparr>]"
        and r = "empty_item\<lparr>ResourceId := Some ''bucket-1'', Timestamp := Some 1700000000,
                          ResourceType := Some ''S3_BUCKET'', Status := Some ''DELETED''\<rparr>"
        and m = "''2023-11''"]
  by (auto simp: empty_item_def get_or_def)

text \<open>
  The monthly savings of a load balancer are the float product 0.0225 * 730, which is
  greater than 16.425; the report prints it as \<^verbatim>\<open>16.43\<close>.
\<close>

lemma alb_savings_formatted:
  "16.425 < calculate_monthly_savings ''ALB'' ''ALB'' ''us-east-1''
   \<and> format_2f (calculate_monthly_savings ''ALB'' ''ALB'' ''us-east-1'') = ''16.43''"
proof -
  have v: "calculate_monthly_savings ''ALB'' ''ALB'' ''us-east-1'' = 4623226492472525 / 2 ^ 48"
    by (simp add: calculate_monthly_savings_def get_hourly_rate_def AWS_PRICING_def
        FIXED_RATE_TYPES_def get_or_def HOURS_PER_MONTH_def py_float_eval)
  show ?thesis
    unfolding v by (simp add: format_2f_def py_float_eval str_nat.simps digit_char_def)
qed

text \<open>
  C8 (layout of the CSV report). For every savings data the report is the header
  \<^verbatim>\<open>Date,Resource ID,Resource Type,Instance Type,Monthly Savings\<close>; then, for each entry of
  \<^verbatim>\<open>detailed_resources\<close> in order, a newline and the row of its date, resource id,
  resource type, instance type and \<^verbatim>\<open>$\<close> with its savings in two decimals, separated by
  commas; then an empty line, the line \<^verbatim>\<open>Total Savings,,,$\<close> followed by the total in two
  decimals, and the line \<^verbatim>\<open>Total Resources,,,\<close> followed by the count. For two rows with
  savings 10.00 and 25.50, whose total is the float 35.50, and count 2, the report ends
  with the lines \<^verbatim>\<open>Total Savings,,,$35.50\<close> and \<^verbatim>\<open>Total Resources,,,2\<close>. For the data
  that \<^verbatim>\<open>calculate_savings\<close> computes in region us-east-1 from a deleted EC2 instance of
  class \<^verbatim>\<open>t2.xlarge\<close> and a deleted resource of type ALB, the amounts of the report are
  the floats 0.1856 * 730 and 0.0225 * 730 and their float sum, printed as
  \<^verbatim>\<open>135.49\<close>, \<^verbatim>\<open>16.43\<close> and \<^verbatim>\<open>151.91\<close>.
\<close>

theorem csv_report_layout:
  "generate_csv_report sd =
     ''Date,Resource ID,Resource Type,Instance Type,Monthly Savings''
     @ concat (map (\<lambda>r. CHR 0x0A # date r @ '','' @ resource_id r @ '','' @ resource_type r
                            @ '','' @ instance_type r @ '',$'' @ format_2f (monthly_savings r))
                (detailed_resources sd))
     @ [CHR 0x0A, CHR 0x0A] @ ''Total Savings,,,$'' @ format_2f (total_savings sd)
     @ [CHR 0x0A] @ ''Total Resources,,,'' @ str_nat (total_resources sd)
   \<and> sum_savings [(''NAT_GATEWAY'', \<lparr>count = 1, savings = 10.00\<rparr>),
                   (''EC2'', \<lparr>count = 1, savings = 25.50\<rparr>)] = 35.50
   \<and> generate_csv_report
       \<lparr>month = m,
        total_savings = sum_savings [(''NAT_GATEWAY'', \<lparr>count = 1, savings = 10.00\<rparr>),
                                     (''EC2'', \<lparr>count = 1, savings = 25.50\<rparr>)],
        total_resources = 2,
        savings_by_service = [(''NAT_GATEWAY'', \<lparr>count = 1, savings = 10.00\<rparr>),
                              (''EC2'', \<lparr>count = 1, savings = 25.50\<rparr>)],
        detailed_resources =
          [\<lparr>date = ''2025-01-03'', resource_id = ''nat-001'', resource_type = ''NAT_GATEWAY'',
            instance_type = ''NAT_GATEWAY'', monthly_savings = 10.00\<rparr>,
           \<lparr>date = ''2025-01-09'', resource_id = ''i-001'', resource_type = ''EC2'',
            instance_type = ''t3.medium'', monthly_savings = 25.50\<rparr>]\<rparr>
     = ''Date,Resource ID,Resource Type,Instance Type,Monthly Savings'' @ [CHR 0x0A]
       @ ''2025-01-03,nat-001,NAT_GATEWAY,NAT_GATEWAY,$10.00'' @ [CHR 0x0A]
       @ ''2025-01-09,i-001,EC2,t3.medium,$25.50'' @ [CHR 0x0A]
       @ [CHR 0x0A]
       @ ''Total Savings,,,$35.50'' @ [CHR 0x0A]
       @ ''Total Resources,,,2''
   \<and> map_sum id generate_csv_report
       (calculate_savings
         \<lparr>AWS_REGION = ''us-east-1'',
          table_scan = Some
            [empty_item\<lparr>ResourceId := Some ''i-1'', Timestamp := Some 1700000000,
                         ResourceType := Some ''EC2'', Status := Some ''DELETED'',
                         InstanceType := Some ''t2.xlarge''\<rparr>,
             empty_item\<lparr>ResourceId := Some ''alb-1'', Timestamp := Some 1700000000,
                         ResourceType := Some ''ALB'', Status := Some ''DELETED''\<rparr>],
          month_bounds = (\<lambda>m. (1698796800, 1701388800)),
          strftime_date = (\<lambda>t. ''2023-11-14'')\<rparr> ''2023-11'')
     = Inr (''Date,Resource ID,Resource Type,Instance Type,Monthly Savings'' @ [CHR 0x0A]
            @ ''2023-11-14,i-1,EC2,t2.xlarge,$135.49'' @ [CHR 0x0A]
            @ ''2023-11-14,alb-1,ALB,ALB,$16.43'' @ [CHR 0x0A]
            @ [CHR 0x0A]
            @ ''Total Savings,,,$151.91'' @ [CHR 0x0A]
            @ ''Total Resources,,,2'')"
proof -
  have layout: "generate_csv_report sd =
     ''Date,Resource ID,Resource Type,Instance Type,Monthly Savings''
     @ concat (map (\<lambda>r. CHR 0x0A # date r @ '','' @ resource_id r @ '','' @ resource_type r
                            @ '','' @ instance_type r @ '',$'' @ format_2f (monthly_savings r))
                (detailed_resources sd))
     @ [CHR 0x0A, CHR 0x0A] @ ''Total Savings,,,$'' @ format_2f (total_savings sd)
     @ [CHR 0x0A] @ ''Total Resources,,,'' @ str_nat (total_resources sd)" for sd
    by (simp add: generate_csv_report_def csv_lines_closed join_lines_def csv_row_def o_def)
  have total: "sum_savings [(''NAT_GATEWAY'', \<lparr>count = 1, savings = 10.00\<rparr>),
                   (''EC2'', \<lparr>count = 1, savings = 25.50\<rparr>)] = 35.50"
    by (simp add: sum_savings_def py_float_eval)
  have f1: "format_2f 10 = ''10.00''" and f2: "format_2f (51 / 2) = ''25.50''"
    and f3: "format_2f (71 / 2) = ''35.50''" and n: "str_nat 2 = ''2''"
    by (simp_all add: format_2f_def py_float_eval str_nat.simps digit_char_def)
  have scenario: "generate_csv_report
       \<lparr>month = m,
        total_savings = sum_savings [(''NAT_GATEWAY'', \<lparr>count = 1, savings = 10.00\<rparr>),
                                     (''EC2'', \<lparr>count = 1, savings = 25.50\<rparr>)],
        total_resources = 2,
        savings_by_service = [(''NAT_GATEWAY'', \<lparr>count = 1, savings = 10.00\<rparr>),
                              (''EC2'', \<lparr>count = 1, savings = 25.50\<rparr>)],
        detailed_resources =
          [\<lparr>date = ''2025-01-03'', resource_id = ''nat-001'', resource_type = ''NAT_GATEWAY'',
            instance_type = ''NAT_GATEWAY'', monthly_savings = 10.00\<rparr>,
           \<lparr>date = ''2025-01-09'', resource_id = ''i-001'', resource_type = ''EC2'',
            instance_type = ''t3.medium'', monthly_savings = 25.50\<rparr>]\<rparr>
     = ''Date,Resource ID,Resource Type,Instance Type,Monthly Savings'' @ [CHR 0x0A]
       @ ''2025-01-03,nat-001,NAT_GATEWAY,NAT_GATEWAY,$10.00'' @ [CHR 0x0A]
       @ ''2025-01-09,i-001,EC2,t3.medium,$25.50'' @ [CHR 0x0A]
       @ [CHR 0x0A]
       @ ''Total Savings,,,$35.50'' @ [CHR 0x0A]
       @ ''Total Resources,,,2''"
    unfolding layout total by (simp add: f1 f2 f3 n)
  have ec2: "calculate_monthly_savings ''EC2'' ''t2.xlarge'' ''us-east-1''
               = 2383530102785835 / 2 ^ 44"
    and alb: "calculate_monthly_savings ''ALB'' ''ALB'' ''us-east-1''
               = 4623226492472525 / 2 ^ 48"
    by (simp_all add: calculate_monthly_savings_def get_hourly_rate_def AWS_PRICING_def
        FIXED_RATE_TYPES_def get_or_def HOURS_PER_MONTH_def py_float_eval)
  have sel: "select_instance_type r ''EC2''
      = get_or (InstanceType r) (get_or (DBInstanceClass r) ''Unknown'')"
    "select_instance_type r ''ALB'' = ''ALB''" for r
    by (simp_all add: select_instance_type_def FIXED_RATE_TYPES_def)
  have fmt: "format_2f (2383530102785835 / 2 ^ 44) = ''135.49''"
    "format_2f (4623226492472525 / 2 ^ 48) = ''16.43''"
    "format_2f (334060219820671 / 2 ^ 41) = ''151.91''"
    by (simp_all add: format_2f_def py_float_eval str_nat.simps digit_char_def)
  have data: "calculate_savings
         \<lparr>AWS_REGION = ''us-east-1'',
          table_scan = Some
            [empty_item\<lparr>ResourceId := Some ''i-1'', Timestamp := Some 1700000000,
                         ResourceType := Some ''EC2'', Status := Some ''DELETED'',
                         InstanceType := Some ''t2.xlarge''\<rparr>,
             empty_item\<lparr>ResourceId := Some ''alb-1'', Timestamp := Some 1700000000,
                         ResourceType := Some ''ALB'', Status := Some ''DELETED''\<rparr>],
          month_bounds = (\<lambda>m. (1698796800, 1701388800)),
          strftime_date = (\<lambda>t. ''2023-11-14'')\<rparr> ''2023-11''
     = Inr \<lparr>month = ''2023-11'', total_savings = 334060219820671 / 2 ^ 41,
            total_resources = 2,
            savings_by_service =
              [(''EC2'', \<lparr>count = 1, savings = 2383530102785835 / 2 ^ 44\<rparr>),
               (''ALB'', \<lparr>count = 1, savings = 4623226492472525 / 2 ^ 48\<rparr>)],
            detailed_resources =
              [\<lparr>date = ''2023-11-14'', resource_id = ''i-1'', resource_type = ''EC2'',
                instance_type = ''t2.xlarge'', monthly_savings = 2383530102785835 / 2 ^ 44\<rparr>,
               \<lparr>date = ''2023-11-14'', resource_id = ''alb-1'', resource_type = ''ALB'',
                instance_type = ''ALB'', monthly_savings = 4623226492472525 / 2 ^ 48\<rparr>]\<rparr>"
    by (simp add: calculate_savings_def deleted_or_stopped_def timestamp_between_def
        add_to_service_def sum_savings_def sel empty_item_def get_or_def ec2 alb py_float_eval)
  have computed: "map_sum id generate_csv_report
       (calculate_savings
         \<lparr>AWS_REGION = ''us-east-1'',
          table_scan = Some
            [empty_item\<lparr>ResourceId := Some ''i-1'', Timestamp := Some 1700000000,
                         ResourceType := Some ''EC2'', Status := Some ''DELETED'',
                         InstanceType := Some ''t2.xlarge''\<rparr>,
             empty_item\<lparr>ResourceId := Some ''alb-1'', Timestamp := Some 1700000000,
                         ResourceType := Some ''ALB'', Status := Some ''DELETED''\<rparr>],
          month_bounds = (\<lambda>m. (1698796800, 1701388800)),
          strftime_date = (\<lambda>t. ''2023-11-14'')\<rparr> ''2023-11'')
     = Inr (''Date,Resource ID,Resource Type,Instance Type,Monthly Savings'' @ [CHR 0x0A]
            @ ''2023-11-14,i-1,EC2,t2.xlarge,$135.49'' @ [CHR 0x0A]
            @ ''2023-11-14,alb-1,ALB,ALB,$16.43'' @ [CHR 0x0A]
            @ [CHR 0x0A]
            @ ''Total Savings,,,$151.91'' @ [CHR 0x0A]
            @ ''Total Resources,,,2'')"
    unfolding data using fmt
    by (simp add: generate_csv_report_def csv_lines_def join_lines_def csv_row_def n)
  show ?thesis using layout total scenario computed by blast
qed

text \<open>
  C5 (cumulative savings against the monthly reduction), evaluated on a table that holds
  one record of a deleted RDS instance of class \<^verbatim>\<open>db.t3.micro\<close>, as the monitor writes
  it (\<^verbatim>\<open>DBInstanceClass\<close> present, no \<^verbatim>\<open>InstanceType\<close>), in region us-east-1. The monthly
  computation reads \<^verbatim>\<open>DBInstanceClass\<close> and reports 0.017 * 730, which is the float 12.41;
  the cumulative computation reads only \<^verbatim>\<open>InstanceType\<close>, prices the class \<^verbatim>\<open>Unknown\<close>,
  and reports 0.
\<close>

theorem cumulative_misses_rds:
  "calculate_cumulative_savings
     \<lparr>AWS_REGION = ''us-east-1'',
      table_scan = Some [empty_item\<lparr>ResourceId := Some ''db-1'', Timestamp := Some 1700000000,
                          ResourceType := Some ''RDS'', Status := Some ''DELETED'',
                          DBInstanceClass := Some ''db.t3.micro''\<rparr>],
      month_bounds = (\<lambda>m. (1698796800, 1701388800)),
      strftime_date = (\<lambda>t. ''2023-11-14'')\<rparr> = 0
   \<and> map_sum id total_savings
       (calculate_savings
         \<lparr>AWS_REGION = ''us-east-1'',
          table_scan = Some [empty_item\<lparr>ResourceId := Some ''db-1'', Timestamp := Some 1700000000,
                          ResourceType := Some ''RDS'', Status := Some ''DELETED'',
                          DBInstanceClass := Some ''db.t3.micro''\<rparr>],
          month_bounds = (\<lambda>m. (1698796800, 1701388800)),
          strftime_date = (\<lambda>t. ''2023-11-14'')\<rparr> ''2023-11'') = Inr (py_float 12.41)
   \<and> format_2f (py_float 12.41) = ''12.41''"
proof -
  have known: "calculate_monthly_savings ''RDS'' ''db.t3.micro'' ''us-east-1'' = py_float 12.41"
    by (simp add: calculate_monthly_savings_def get_hourly_rate_def AWS_PRICING_def
        FIXED_RATE_TYPES_def get_or_def HOURS_PER_MONTH_def py_float_eval)
  have unknown: "calculate_monthly_savings ''RDS'' ''Unknown'' ''us-east-1'' = 0"
    by (simp add: calculate_monthly_savings_def get_hourly_rate_def AWS_PRICING_def
        FIXED_RATE_TYPES_def get_or_def HOURS_PER_MONTH_def py_float_zero)
  have pos: "0 < py_float (1241 / 100)"
    and idem: "py_float (py_float (1241 / 100)) = py_float (1241 / 100)"
    by (simp_all add: py_float_eval)
  have fmt: "format_2f (py_float 12.41) = ''12.41''"
    by (simp add: format_2f_def py_float_eval str_nat.simps digit_char_def)
  have sel: "select_instance_type r ''RDS''
      = get_or (InstanceType r) (get_or (DBInstanceClass r) ''Unknown'')" for r
    by (simp add: select_instance_type_def FIXED_RATE_TYPES_def)
  have cumulative: "calculate_cumulative_savings
     \<lparr>AWS_REGION = ''us-east-1'',
      table_scan = Some [empty_item\<lparr>ResourceId := Some ''db-1'', Timestamp := Some 1700000000,
                          ResourceType := Some ''RDS'', Status := Some ''DELETED'',
                          DBInstanceClass := Some ''db.t3.micro''\<rparr>],
      month_bounds = (\<lambda>m. (1698796800, 1701388800)),
      strftime_date = (\<lambda>t. ''2023-11-14'')\<rparr> = 0"
    by (simp add: calculate_cumulative_savings_def deleted_or_stopped_def
        project_type_attrs_def empty_item_def get_or_def unknown py_float_zero)
  have monthly: "map_sum id total_savings
       (calculate_savings
         \<lparr>AWS_REGION = ''us-east-1'',
          table_scan = Some [empty_item\<lparr>ResourceId := Some ''db-1'', Timestamp := Some 1700000000,
                          ResourceType := Some ''RDS'', Status := Some ''DELETED'',
                          DBInstanceClass := Some ''db.t3.micro''\<rparr>],
          month_bounds = (\<lambda>m. (1698796800, 1701388800)),
          strftime_date = (\<lambda>t. ''2023-11-14'')\<rparr> ''2023-11'') = Inr (py_float 12.41)"
    by (simp add: calculate_savings_def deleted_or_stopped_def timestamp_between_def
        add_to_service_def sum_savings_def Let_def sel empty_item_def get_or_def known pos idem)
  show ?thesis using cumulative monthly fmt by blast
qed

subsection \<open>Instance prices\<close>

lemma instance_pricing_nonzero: "list_all (\<lambda>kv. snd kv \<noteq> 0) INSTANCE_PRICING"
  by (simp add: INSTANCE_PRICING_def)

text \<open>
  For a class in its price table \<^verbatim>\<open>get_instance_cost\<close> returns the entry of the table.
\<close>

lemma get_instance_cost_known:
  assumes "map_of INSTANCE_PRICING instance_class = Some price"
  shows "get_instance_cost instance_class = price"
  using assms map_of_list_all [OF instance_pricing_nonzero assms]
  by (simp add: get_instance_cost_def truthy_cost_def)

text \<open>
  A name that contains \<^verbatim>\<open>xlarge\<close> contains \<^verbatim>\<open>large\<close>. So for a class that is not in the
  table the estimate is that of the first of the words nano, micro, small, medium, large
  that occurs in the name, and 200 when none occurs; the branch of \<^verbatim>\<open>xlarge\<close>, with the
  estimate 140, is never taken.
\<close>

lemma starts_with_xlarge:
  "starts_with ''xlarge'' s \<Longrightarrow> \<exists>t. s = CHR ''x'' # t \<and> starts_with ''large'' t"
  by (cases s) auto

lemma xlarge_contains_large: "str_contains ''xlarge'' s \<Longrightarrow> str_contains ''large'' s"
proof (induction s)
  case Nil
  then show ?case by simp
next
  case (Cons c cs)
  show ?case
  proof (cases "starts_with ''xlarge'' (c # cs)")
    case True
    from starts_with_xlarge [OF True] obtain t where t: "cs = t" "starts_with ''large'' cs"
      by auto
    then have "str_contains ''large'' cs" by (cases cs) auto
    then show ?thesis by simp
  next
    case False
    with Cons show ?thesis by auto
  qed
qed

lemma get_instance_cost_unknown:
  assumes "map_of INSTANCE_PRICING instance_class = None"
  shows "get_instance_cost instance_class =
           (if str_contains ''nano'' instance_class then 5
            else if str_contains ''micro'' instance_class then 10
            else if str_contains ''small'' instance_class then 20
            else if str_contains ''medium'' instance_class then 35
            else if str_contains ''large'' instance_class then 70
            else 200)"
  using assms xlarge_contains_large [of instance_class]
  by (auto simp: get_instance_cost_def truthy_cost_def)

lemma get_instance_cost_never_140: "get_instance_cost instance_class \<noteq> 140"
proof (cases "map_of INSTANCE_PRICING instance_class")
  case None
  then show ?thesis by (simp add: get_instance_cost_unknown)
next
  case (Some price)
  have "list_all (\<lambda>kv. snd kv \<noteq> 140) INSTANCE_PRICING"
    by (simp add: INSTANCE_PRICING_def)
  from map_of_list_all [OF this Some] get_instance_cost_known [OF Some] show ?thesis by simp
qed

text \<open>
  The savings computation has no estimate for a class that is missing from the pricing
  table: for a resource type priced per instance class it is the hourly rate of the table
  times 730 for a class in the table, and 0 otherwise.
\<close>

lemma calculate_monthly_savings_per_class:
  assumes "rtype \<notin> set FIXED_RATE_TYPES"
  shows "calculate_monthly_savings rtype instance_class region
          = (case map_of (instance_rates region rtype) instance_class of
               Some rate \<Rightarrow> py_float (rate * 730)
             | None \<Rightarrow> 0)"
  using assms
  by (simp add: calculate_monthly_savings_def get_hourly_rate_def Let_def get_or_def
      instance_rates_def HOURS_PER_MONTH_def py_float_zero
      split: option.splits price_entry.splits)

text \<open>
  C6 (monthly cost of an instance class), evaluated on the EC2 class \<^verbatim>\<open>m6i.xlarge\<close>,
  which is in neither price table. Its name contains both \<^verbatim>\<open>large\<close> and \<^verbatim>\<open>xlarge\<close>;
  \<^verbatim>\<open>get_instance_cost\<close> tests \<^verbatim>\<open>large\<close> first and returns 70, the estimate of the smaller
  bracket and the same as for \<^verbatim>\<open>m6i.large\<close>, where the table prices \<^verbatim>\<open>m5.xlarge\<close> at
  138.70; the estimate 140 of the bracket \<^verbatim>\<open>xlarge\<close> is returned for no class at all.
  \<^verbatim>\<open>get_rds_cost\<close>, which has the same ladder, excludes \<^verbatim>\<open>xlarge\<close> from its test of
  \<^verbatim>\<open>large\<close> and gives the class \<^verbatim>\<open>db.m6i.xlarge\<close> the estimate of its larger bracket.
  The savings computation prices \<^verbatim>\<open>m6i.xlarge\<close> at 0.
\<close>

theorem xlarge_class_priced_as_large:
  "map_of INSTANCE_PRICING ''m6i.xlarge'' = None
   \<and> get_instance_cost ''m6i.xlarge'' = 70
   \<and> get_instance_cost ''m6i.large'' = 70
   \<and> get_instance_cost ''m5.xlarge'' = 138.70
   \<and> get_instance_cost instance_class \<noteq> 140
   \<and> map_of RDS_PRICING ''db.m6i.xlarge'' = None
   \<and> get_rds_cost ''db.m6i.large'' = 150
   \<and> get_rds_cost ''db.m6i.xlarge'' = 300
   \<and> calculate_monthly_savings ''EC2'' ''m6i.xlarge'' ''us-east-1'' = 0"
proof -
  have ec2: "map_of INSTANCE_PRICING ''m6i.xlarge'' = None"
    "get_instance_cost ''m6i.xlarge'' = 70" "get_instance_cost ''m6i.large'' = 70"
    "get_instance_cost ''m5.xlarge'' = 138.70"
    by (simp_all add: get_instance_cost_def INSTANCE_PRICING_def truthy_cost_def)
  have rds: "map_of RDS_PRICING ''db.m6i.xlarge'' = None"
    "get_rds_cost ''db.m6i.large'' = 150" "get_rds_cost ''db.m6i.xlarge'' = 300"
    by (simp_all add: get_rds_cost_def RDS_PRICING_def truthy_cost_def)
  have savings: "calculate_monthly_savings ''EC2'' ''m6i.xlarge'' ''us-east-1'' = 0"
    by (simp add: calculate_monthly_savings_def get_hourly_rate_def AWS_PRICING_def
        FIXED_RATE_TYPES_def get_or_def py_float_zero)
  show ?thesis using ec2 rds savings get_instance_cost_never_140 by blast
qed

subsection \<open>The idle counter\<close>

lemma scan_history_idle_run:
  assumes "list_all is_idle_status newer"
    and "older = [] \<or> Status (hd older) = Some ''ACTIVE''"
  shows "scan_history (newer @ older) n = (n + int (length newer), None)"
  using assms
proof (induction newer arbitrary: n)
  case Nil
  then show ?case by (cases older) (auto simp: get_or_def)
next
  case (Cons e es)
  then show ?case by (auto simp: get_or_def is_idle_status_def Let_def)
qed

lemma determine_action_idle_run:
  assumes newer: "list_all is_idle_status newer"
    and older: "ends_active older"
    and idle: "cpu < CPU_IDLE_THRESHOLD cfg"
  shows "determine_action_with cfg now (older @ newer) cpu =
           (if IDLE_CHECKS_BEFORE_ACTION cfg \<le> int (length newer)
            then (if SKIP_QUARANTINE cfg then ''DELETE'' else ''QUARANTINE'')
            else ''WARN'',
            int (length newer), None)"
proof -
  have n: "list_all is_idle_status (rev newer)"
    using newer by (simp add: list_all_iff)
  have o: "rev older = [] \<or> Status (hd (rev older)) = Some ''ACTIVE''"
    using older by (cases "rev older") (simp_all add: ends_active_def)
  have s: "scan_history (rev (older @ newer)) 0 = (int (length newer), None)"
    using scan_history_idle_run [OF n o, of 0] by simp
  show ?thesis
    unfolding determine_action_with_def s
    using idle by (cases newer) (simp_all add: truthy_date_def)
qed

text \<open>
  C4 (idle counter), as the code has it. Let the history be \<open>older @ newer\<close>, where
  \<open>older\<close> is empty or ends with an ACTIVE record and every record of \<open>newer\<close> is IDLE or
  IDLE_WARNING, and let the signal be idle. Then \<^verbatim>\<open>determine_action\<close> returns as idle
  count the number \<open>k\<close> of records of \<open>newer\<close>, whatever \<^verbatim>\<open>IdleCount\<close> they store, with no
  quarantine date; the action is WARN while \<open>k\<close> is below \<open>IDLE_CHECKS_BEFORE_ACTION\<close>, and
  then the IDLE_WARNING record that the cycle writes for a running instance carries
  \<^verbatim>\<open>IdleCount\<close> \<open>k + 1\<close>. For the history \<open>[ACTIVE]\<close> the decision under the constants of
  the module is WARN with idle count 0. When the newest record is a QUARANTINE record with
  a non-zero timestamp, the idle count returned is 1.
\<close>

theorem idle_count_counts_history:
  assumes newer: "list_all is_idle_status newer"
    and older: "ends_active older"
    and idle: "cpu < CPU_IDLE_THRESHOLD cfg"
    and running: "State inst = ''running''"
    and out: "get_cpu_utilization out = cpu" "clock out = now"
      "query_outcome out = Some (Some (older @ newer))" "\<not> put_item_raises out"
  shows "determine_action_with cfg now (older @ newer) cpu =
           (if IDLE_CHECKS_BEFORE_ACTION cfg \<le> int (length newer)
            then (if SKIP_QUARANTINE cfg then ''DELETE'' else ''QUARANTINE'')
            else ''WARN'',
            int (length newer), None)
         \<and> (int (length newer) < IDLE_CHECKS_BEFORE_ACTION cfg \<longrightarrow>
              PutItem ((ec2_item inst out ''IDLE_WARNING'')
                         \<lparr>ConfigBackupPath :=
                            Some (config_backup_path bucket ''ec2-configs'' (InstanceId inst)),
                          IdleCount := Some (int (length newer) + 1)\<rparr>)
                \<in> set (calls (fst (process_instance cfg bucket inst out s))))
         \<and> (cpu < 5 \<longrightarrow>
              determine_action now [empty_item\<lparr>Status := Some ''ACTIVE'', Timestamp := Some tstamp\<rparr>] cpu
                = (''WARN'', 0, None))
         \<and> (Status qrec = Some ''QUARANTINE'' \<and> Timestamp qrec = Some q \<and> q \<noteq> 0 \<longrightarrow>
              fst (snd (determine_action_with cfg now (h @ [qrec]) cpu)) = 1)"
proof -
  note d = determine_action_idle_run [OF newer older idle, of now]
  have w: "PutItem ((ec2_item inst out ''IDLE_WARNING'')
                         \<lparr>ConfigBackupPath :=
                            Some (config_backup_path bucket ''ec2-configs'' (InstanceId inst)),
                          IdleCount := Some (int (length newer) + 1)\<rparr>)
                \<in> set (calls (fst (process_instance cfg bucket inst out s)))"
    if "int (length newer) < IDLE_CHECKS_BEFORE_ACTION cfg"
    using that running out
    by (simp add: process_instance_def get_resource_history_def get_or_def d put_item_def
        record_call_def Let_def)
  have a: "determine_action now [empty_item\<lparr>Status := Some ''ACTIVE'', Timestamp := Some tstamp\<rparr>] cpu
                = (''WARN'', 0, None)" if "cpu < 5"
    using that
    by (simp add: determine_action_def determine_action_with_def module_config_def
        empty_item_def get_or_def truthy_date_def)
  have qr: "fst (snd (determine_action_with cfg now (h @ [qrec]) cpu)) = 1"
    if "Status qrec = Some ''QUARANTINE''" "Timestamp qrec = Some q" "q \<noteq> 0"
  proof -
    have "scan_history (rev (h @ [qrec])) 0 = (1, Some (real_of_int q))"
      using scan_history_quarantine [of "[]" qrec q "rev h" 0] that by simp
    then show ?thesis
      using idle that by (simp add: determine_action_with_def truthy_date_def)
  qed
  show ?thesis using d w a qr by blast
qed

theorem idle_count_counts_history_witness:
  "determine_action_with (module_config\<lparr>IDLE_CHECKS_BEFORE_ACTION := 3\<rparr>) 1700007200
     ([empty_item\<lparr>Status := Some ''ACTIVE'', Timestamp := Some 1700000000\<rparr>]
      @ [empty_item\<lparr>Status := Some ''IDLE_WARNING'', Timestamp := Some 1700003600,
                     IdleCount := Some 1\<rparr>]) 1
   = (''WARN'', 1, None)
   \<and> PutItem (empty_item
        \<lparr>ResourceId := Some ''i-1'', Timestamp := Some 1700007200,
         ResourceType := Some ''EC2'', Status := Some ''IDLE_WARNING'',
         InstanceType := Some ''t3.micro'', IdleCount := Some 2,
         ConfigBackupPath := Some ''s3://bk/ec2-configs/i-1/''\<rparr>)
      \<in> set (calls (fst (process_instance (module_config\<lparr>IDLE_CHECKS_BEFORE_ACTION := 3\<rparr>) ''bk''
           (example_instance ''i-1'')
           ((example_outcomes False)
              \<lparr>query_outcome := Some (Some
                 ([empty_item\<lparr>Status := Some ''ACTIVE'', Timestamp := Some 1700000000\<rparr>]
                  @ [empty_item\<lparr>Status := Some ''IDLE_WARNING'', Timestamp := Some 1700003600,
                                 IdleCount := Some 1\<rparr>])),
               clock := 1700007200, put_timestamp := 1700007200\<rparr>)
           initial_state)))
   \<and> determine_action 1700007200
        [empty_item\<lparr>Status := Some ''ACTIVE'', Timestamp := Some 1700000000\<rparr>] 1
      = (''WARN'', 0, None)
   \<and> fst (snd (determine_action_with (module_config\<lparr>IDLE_CHECKS_BEFORE_ACTION := 3\<rparr>) 1700007200
        ([] @ [empty_item\<lparr>Status := Some ''QUARANTINE'', Timestamp := Some 1700000000\<rparr>]) 1)) = 1"
  using idle_count_counts_history
    [where newer = "[empty_item\<lparr>Status := Some ''IDLE_WARNING'', Timestamp := Some 1700003600,
                                  IdleCount := Some 1\<rparr>]"
       and older = "[empty_item\<lparr>Status := Some ''ACTIVE'', Timestamp := Some 1700000000\<rparr>]"
       and cpu = 1 and cfg = "module_config\<lparr>IDLE_CHECKS_BEFORE_ACTION := 3\<rparr>"
       and inst = "example_instance ''i-1''"
       and out = "(example_outcomes False)
              \<lparr>query_outcome := Some (Some
                 ([empty_item\<lparr>Status := Some ''ACTIVE'', Timestamp := Some 1700000000\<rparr>]
                  @ [empty_item\<lparr>Status := Some ''IDLE_WARNING'', Timestamp := Some 1700003600,
                                 IdleCount := Some 1\<rparr>])),
               clock := 1700007200, put_timestamp := 1700007200\<rparr>"
       and now = 1700007200 and bucket = "''bk''" and s = initial_state and tstamp = 1700000000
       and qrec = "empty_item\<lparr>Status := Some ''QUARANTINE'', Timestamp := Some 1700000000\<rparr>"
       and q = 1700000000 and h = "[]"]
  by (simp add: is_idle_status_def ends_active_def module_config_def empty_item_def get_or_def
      example_instance_def example_outcomes_def ec2_item_def config_backup_path_def)

text \<open>
  The statement of C4 fails on its own scenario: for the history \<open>[ACTIVE]\<close> and an idle
  signal the decision is WARN with idle count 0, not 1. And after a QUARANTINE record
  that stores \<^verbatim>\<open>IdleCount\<close> 1 the idle count returned is 1, not 2.
\<close>

theorem idle_count_scenario_counterexample:
  "determine_action 1700003600
     [empty_item\<lparr>Status := Some ''ACTIVE'', Timestamp := Some 1700000000\<rparr>] 0
   = (''WARN'', 0, None)
   \<and> determine_action 1700003600
     [empty_item\<lparr>Status := Some ''IDLE_WARNING'', Timestamp := Some 1699990000,
                  IdleCount := Some 1\<rparr>,
      empty_item\<lparr>Status := Some ''QUARANTINE'', Timestamp := Some 1700000000,
                  IdleCount := Some 1\<rparr>] 0
   = (''DELETE'', 1, Some 1700000000)"
  by (simp add: determine_action_def determine_action_with_def module_config_def
      empty_item_def get_or_def truthy_date_def)

subsection \<open>Backups before destruction\<close>

text \<open>
  For an EC2 instance the cycle calls \<^verbatim>\<open>terminate_instance\<close>, and writes a DELETED record,
  only after \<^verbatim>\<open>list_objects_v2\<close> has returned a positive \<^verbatim>\<open>KeyCount\<close> for the backup prefix.
\<close>

lemma process_instance_calls_extend:
  "\<exists>new. calls (fst (process_instance cfg bucket inst out s)) = calls s @ new"
  by (auto simp: process_instance_def put_item_def record_call_def add_error_def Let_def
      split: prod.splits option.splits)

lemma ec2_destroy_needs_verified_backup:
  assumes "Call ''terminate_instance'' [x] \<in> set (calls (fst (process_instance cfg bucket inst out s)))"
    and "Call ''terminate_instance'' [x] \<notin> set (calls s)"
  shows "\<exists>n. list_objects_v2 out = Some n \<and> 0 < n"
  using assms
  by (auto simp: process_instance_def put_item_def record_call_def add_error_def Let_def
      split: prod.splits option.splits if_splits)

lemma ec2_deleted_needs_verified_backup:
  assumes "PutItem it \<in> set (calls (fst (process_instance cfg bucket inst out s)))"
    and "PutItem it \<notin> set (calls s)"
    and "Status it = Some ''DELETED''"
  shows "(\<exists>n. list_objects_v2 out = Some n \<and> 0 < n) \<and> terminate_instance out"
  using assms
  by (auto simp: process_instance_def put_item_def record_call_def add_error_def Let_def
      ec2_item_def empty_item_def
      split: prod.splits option.splits if_splits)

text \<open>
  For a NAT gateway the result of \<^verbatim>\<open>backup_nat_gateway_config\<close> is assigned and never read.
\<close>

lemma process_nat_gateway_ignores_backup:
  "process_nat_gateway bucket nat_gw (out\<lparr>backup_nat_gateway_config := b\<rparr>) s
     = process_nat_gateway bucket nat_gw out s"
  by (simp add: process_nat_gateway_def nat_item_def Let_def split_beta)

text \<open>
  The same holds for a load balancer and for a VPC: the results of
  \<^verbatim>\<open>backup_load_balancer_config\<close> and of \<^verbatim>\<open>backup_vpc_config\<close> do not influence the cycle.
\<close>

lemma process_load_balancer_ignores_backup:
  "process_load_balancer bucket lb (out\<lparr>backup_load_balancer_config := b\<rparr>) s
     = process_load_balancer bucket lb out s"
  by (simp add: process_load_balancer_def lb_item_def Let_def split_beta)

lemma process_vpc_ignores_backup:
  "process_vpc bucket v (out\<lparr>backup_vpc_config := b\<rparr>) s = process_vpc bucket v out s"
  by (simp add: process_vpc_def vpc_item_def Let_def split_beta)

text \<open>
  A database instance and a volume are deleted only after the snapshot call has returned
  an identifier.
\<close>

lemma rds_delete_needs_snapshot:
  assumes "Call ''delete_rds_instance'' [x]
             \<in> set (calls (fst (process_db_instance bucket db out initial_state)))"
  shows "\<not> falsy (create_rds_snapshot out)"
  using assms
  by (simp add: process_db_instance_def put_item_def record_call_def add_rds_error_def Let_def
      initial_state_def split_beta split: option.splits if_splits)

lemma ebs_delete_needs_snapshot:
  assumes "Call ''delete_ebs_volume'' [x]
             \<in> set (calls (fst (process_ebs_volume bucket vol out initial_state)))"
  shows "\<not> falsy (create_ebs_snapshot out)"
  using assms
  by (simp add: process_ebs_volume_def put_item_def record_call_def add_ebs_error_def Let_def
      initial_state_def split_beta split: option.splits if_splits)

text \<open>
  C1 (no destruction without a verified backup), evaluated on an idle NAT gateway with
  three IDLE_WARNING records in its history, for which the backup fails
  (\<^verbatim>\<open>backup_nat_gateway_config\<close> returns \<^verbatim>\<open>False\<close>) and the deletion succeeds: the cycle
  calls \<^verbatim>\<open>delete_nat_gateway\<close> and writes a DELETED record that names a backup path.
\<close>

theorem nat_gateway_deleted_without_backup:
  "process_nat_gateway ''bk'' \<lparr>NatGatewayId = ''nat-1'', NatTags = []\<rparr>
     \<lparr>check_nat_gateway_usage = True,
      nat_query_outcome = Some (Some
        [empty_item\<lparr>Status := Some ''IDLE_WARNING'', Timestamp := Some 1700000000\<rparr>,
         empty_item\<lparr>Status := Some ''IDLE_WARNING'', Timestamp := Some 1700003600\<rparr>,
         empty_item\<lparr>Status := Some ''IDLE_WARNING'', Timestamp := Some 1700007200\<rparr>]),
      backup_nat_gateway_config = False,
      delete_nat_gateway = (True, True),
      nat_put_item_raises = False,
      nat_put_timestamp = 1700010800\<rparr>
     initial_state
   = (initial_state
        \<lparr>nat_stats := \<lparr>nat_total = 0, nat_active = 0, nat_idle = 1, nat_deleted = 1,
                        nat_errors = 0\<rparr>,
         calls :=
           [Call ''backup_nat_gateway_config'' [''nat-1''],
            Call ''delete_nat_gateway'' [''nat-1''],
            PutItem (empty_item
              \<lparr>ResourceId := Some ''nat-1'', Timestamp := Some 1700010800,
               ResourceType := Some ''NAT_GATEWAY'', Status := Some ''DELETED'',
               ConfigBackupPath := Some ''s3://bk/nat-gateway-configs/nat-1/'',
               EstimatedMonthlySavings := Some 36\<rparr>),
            Call ''send_nat_gateway_alert'' [''nat-1'', ''DELETED'']]\<rparr>,
      None)"
  by (simp add: process_nat_gateway_def get_resource_history_def get_or_def empty_item_def
      config_backup_path_def put_item_def record_call_def nat_item_def initial_state_def
      Let_def)

subsection \<open>Errors of single resources\<close>

lemma calls_simps [simp]:
  "calls (record_call c s) = calls s @ [c]"
  "calls (add_error s) = calls s"
  "calls (add_nat_error s) = calls s"
  "calls (fst (put_item r it s)) = (if r then calls s else calls s @ [PutItem it])"
  "snd (put_item r it s) = (if r then Some ClientError else None)"
  by (simp_all add: record_call_def add_error_def add_nat_error_def put_item_def)





lemma calls_error_simps [simp]:
  "calls (add_eip_error s) = calls s"
  "calls (add_rds_error s) = calls s"
  "calls (add_s3_error s) = calls s"
  "calls (add_ebs_error s) = calls s"
  "calls (add_lb_error s) = calls s"
  "calls (add_vpc_error s) = calls s"
  "calls (add_vpc_active s) = calls s"
  by (simp_all add: add_eip_error_def add_rds_error_def add_s3_error_def add_ebs_error_def
      add_lb_error_def add_vpc_error_def add_vpc_active_def)





























end
